theory Spec2Isabelle
  imports Complex_Main "HOL-Library.Log_Nat"
begin

section \<open>Python exceptions as values\<close>

text \<open>
  Every \<^verbatim>\<open>raise\<close>, failed \<^verbatim>\<open>assert\<close> and library exception of the source is a
  value of this type; a computation that may raise returns \<open>error + 'a\<close>, with
  \<open>Inl\<close> for the exception.
\<close>

datatype error =
  AssertionError | TypeError | ValueError | IndexError | AttributeError | RuntimeError
  | UnboundLocalError

definition bindE :: "error + 'a \<Rightarrow> ('a \<Rightarrow> error + 'b) \<Rightarrow> error + 'b" where
  "bindE m f = (case m of Inl e \<Rightarrow> Inl e | Inr v \<Rightarrow> f v)"

section \<open>data/backdoor.py\<close>

subsection \<open>Arrays\<close>

text \<open>
  A numpy array is its shape and its elements in row-major order. The elements are
  numbers; the value \<^verbatim>\<open>255.0\<close> that \<^verbatim>\<open>add_trigger\<close> stores is the number 255 (as it
  is in an array of bytes or of floats). Arrays live in a store, addressed by
  references, so that assignment through one name is seen through every other.
\<close>

record ndarray =
  shape :: "nat list"
  data :: "int list"

type_synonym ref = nat
type_synonym heap = "ref \<Rightarrow> ndarray"

text \<open>\<^verbatim>\<open>range(a, b)\<close>\<close>

definition py_range :: "int \<Rightarrow> int \<Rightarrow> int list" where
  "py_range a b = [a..b - 1]"

text \<open>\<^verbatim>\<open>img.shape[i]\<close>: indexing the shape tuple by a non-negative constant.\<close>

definition shape_at :: "nat list \<Rightarrow> nat \<Rightarrow> error + nat" where
  "shape_at s i = (if i < length s then Inr (s ! i) else Inl IndexError)"

text \<open>An index into an axis of length \<open>n\<close>: negative indices count from the end.\<close>

definition norm_index :: "nat \<Rightarrow> int \<Rightarrow> error + nat" where
  "norm_index n i =
     (if 0 \<le> i \<and> i < int n then Inr (nat i)
      else if - int n \<le> i \<and> i < 0 then Inr (nat (i + int n))
      else Inl IndexError)"

text \<open>
  \<^verbatim>\<open>a[j, k] = v\<close> on an array of at least two axes: the scalar is broadcast over
  the remaining axes, a contiguous run of the row-major data.
\<close>

definition setitem :: "ndarray \<Rightarrow> int \<Rightarrow> int \<Rightarrow> int \<Rightarrow> error + ndarray" where
  "setitem a j k v =
     (case shape a of
        h # w # rest \<Rightarrow>
          bindE (norm_index h j) (\<lambda>j'.
          bindE (norm_index w k) (\<lambda>k'.
            let inner = prod_list rest; off = (j' * w + k') * inner
            in Inr (a\<lparr>data := take off (data a) @ replicate inner v
                                @ drop (off + inner) (data a)\<rparr>)))
      | _ \<Rightarrow> Inl IndexError)"

subsection \<open>BadNets\<close>

record BadNets =
  trigger_size :: int

text \<open>
  The two loops of \<^verbatim>\<open>add_trigger\<close>. The array is updated in place, so an exception
  leaves it as the iterations before have made it: the loops return the exception,
  if any, and the array.
\<close>

fun add_trigger_k :: "ndarray \<Rightarrow> int \<Rightarrow> int list \<Rightarrow> error option \<times> ndarray" where
  "add_trigger_k a j [] = (None, a)"
| "add_trigger_k a j (k # ks) =
     (case setitem a j k 255 of
        Inl e \<Rightarrow> (Some e, a)
      | Inr a' \<Rightarrow> add_trigger_k a' j ks)"

fun add_trigger_j :: "ndarray \<Rightarrow> int list \<Rightarrow> int list \<Rightarrow> error option \<times> ndarray" where
  "add_trigger_j a [] ks = (None, a)"
| "add_trigger_j a (j # js) ks =
     (case add_trigger_k a j ks of
        (Some e, a') \<Rightarrow> (Some e, a')
      | (None, a') \<Rightarrow> add_trigger_j a' js ks)"

definition add_trigger :: "BadNets \<Rightarrow> ref \<Rightarrow> heap \<Rightarrow> (error + ref) \<times> heap" where
  "add_trigger self img h =
     (let poison_img = img in
      case shape_at (shape (h img)) 0 of
        Inl e \<Rightarrow> (Inl e, h)
      | Inr width \<Rightarrow>
      (case shape_at (shape (h img)) 1 of
        Inl e \<Rightarrow> (Inl e, h)
      | Inr height \<Rightarrow>
      (case add_trigger_j (h poison_img)
              (py_range (int width - 1 - trigger_size self) (int width - 1))
              (py_range (int height - 1 - trigger_size self) (int height - 1)) of
         (Some e, a') \<Rightarrow> (Inl e, h(poison_img := a'))
       | (None, a') \<Rightarrow> (Inr poison_img, h(poison_img := a')))))"

text \<open>\<^verbatim>\<open>np.zeros(s)\<close> and the image the claim expects.\<close>

definition zeros :: "nat list \<Rightarrow> ndarray" where
  "zeros s = \<lparr>shape = s, data = replicate (prod_list s) 0\<rparr>"

definition corner_patch :: ndarray where
  "corner_patch =
     \<lparr>shape = [10, 10, 3],
      data = concat (map (\<lambda>j. concat (map (\<lambda>k.
               replicate 3 (if 6 \<le> j \<and> j \<le> 8 \<and> 6 \<le> k \<and> k \<le> 8 then 255 else 0))
               [0..<10])) [0..<10])\<rparr>"

subsection \<open>Blend\<close>

text \<open>
  The argument of the transform is any Python object: an array, or something else
  (named by its type). The imaging library is a parameter of the model: its images
  are of an arbitrary type \<open>'img\<close> and each of its operations may raise.
\<close>

datatype pyobj = Array ndarray | Other string

record 'img pil =
  pil_fromarray :: "ndarray \<Rightarrow> error + 'img"
  pil_size :: "'img \<Rightarrow> nat \<times> nat"
  pil_resize :: "'img \<Rightarrow> nat \<times> nat \<Rightarrow> error + 'img"
  pil_blend :: "'img \<Rightarrow> 'img \<Rightarrow> rat \<Rightarrow> error + 'img"
  np_array :: "'img \<Rightarrow> error + ndarray"

record 'img Blend =
  trigger_ptn :: 'img
  alpha :: rat

definition blend_trigger :: "'img pil \<Rightarrow> 'img Blend \<Rightarrow> pyobj \<Rightarrow> error + ndarray" where
  "blend_trigger lib self img =
     (case img of
        Other t \<Rightarrow> Inl TypeError
      | Array a \<Rightarrow>
          if length (shape a) \<noteq> 3 then Inl ValueError
          else
            bindE (pil_fromarray lib a) (\<lambda>im.
            bindE (pil_resize lib (trigger_ptn self) (pil_size lib im)) (\<lambda>tp.
            bindE (pil_blend lib im tp (alpha self)) (\<lambda>poison_img.
              np_array lib poison_img))))"

section \<open>model/network/se_wideresnet.py\<close>

subsection \<open>The tensor library\<close>

text \<open>
  The network is written against a tensor library. The model takes the library as a
  parameter: tensors are of an arbitrary type \<open>'a\<close>, a layer is a function on tensors
  that may raise, and a layer constructor maps the layer's hyperparameters to such a
  function (the weights of a layer are not part of the model). The constructors are
  named as in the source: \<open>Conv2d T cin cout kernel stride padding groups\<close>,
  \<open>BatchNorm2d T features training\<close>, \<open>LeakyReLU T slope\<close>, \<open>Linear T cin cout\<close>;
  the functions are \<open>dropout T x p training\<close>, \<open>torch_add\<close>, \<open>torch_mul\<close> (the
  operator \<^verbatim>\<open>*\<close>), \<open>squeeze\<close>, \<open>slice_dim1 T x k\<close> (the slice \<^verbatim>\<open>x[:, 0:k]\<close>),
  \<open>cat T xs dim\<close>, \<open>adaptive_avg_pool2d T x size\<close> and \<open>view2 T x c\<close> (the reshape
  \<^verbatim>\<open>x.view(-1, c)\<close>).
\<close>

record 'a torch =
  Conv2d :: "nat \<Rightarrow> nat \<Rightarrow> nat \<Rightarrow> nat \<Rightarrow> nat \<Rightarrow> nat \<Rightarrow> 'a \<Rightarrow> error + 'a"
  BatchNorm2d :: "nat \<Rightarrow> bool \<Rightarrow> 'a \<Rightarrow> error + 'a"
  LeakyReLU :: "rat \<Rightarrow> 'a \<Rightarrow> error + 'a"
  ReLU :: "'a \<Rightarrow> error + 'a"
  Sigmoid :: "'a \<Rightarrow> error + 'a"
  Linear :: "nat \<Rightarrow> nat \<Rightarrow> 'a \<Rightarrow> error + 'a"
  dropout :: "'a \<Rightarrow> rat \<Rightarrow> bool \<Rightarrow> error + 'a"
  torch_add :: "'a \<Rightarrow> 'a \<Rightarrow> error + 'a"
  torch_mul :: "'a \<Rightarrow> 'a \<Rightarrow> error + 'a"
  squeeze :: "'a \<Rightarrow> 'a"
  slice_dim1 :: "'a \<Rightarrow> int \<Rightarrow> error + 'a"
  cat :: "'a list \<Rightarrow> nat \<Rightarrow> error + 'a"
  adaptive_avg_pool2d :: "'a \<Rightarrow> nat \<Rightarrow> error + 'a"
  view2 :: "'a \<Rightarrow> nat \<Rightarrow> error + 'a"

text \<open>\<^verbatim>\<open>nn.AdaptiveAvgPool2d(size)\<close> is the module of the function of that name.\<close>

definition AdaptiveAvgPool2d :: "'a torch \<Rightarrow> nat \<Rightarrow> 'a \<Rightarrow> error + 'a" where
  "AdaptiveAvgPool2d T n x = adaptive_avg_pool2d T x n"

text \<open>\<^verbatim>\<open>nn.Sequential\<close>: the layers in order, stopping at the first exception.\<close>

fun Sequential :: "('a \<Rightarrow> error + 'a) list \<Rightarrow> 'a \<Rightarrow> error + 'a" where
  "Sequential [] x = Inr x"
| "Sequential (m # ms) x = bindE (m x) (Sequential ms)"

text \<open>
  The Python idiom \<^verbatim>\<open>c and a or b\<close> on numbers: \<open>a\<close> when \<open>c\<close> holds and \<open>a\<close> is
  not zero, otherwise \<open>b\<close>.
\<close>

definition and_or :: "bool \<Rightarrow> nat \<Rightarrow> nat \<Rightarrow> nat" where
  "and_or c a b = (if c \<and> a \<noteq> 0 then a else b)"

subsection \<open>Python numbers\<close>

text \<open>
  A Python number is its exact value, a fraction; a \<^verbatim>\<open>float\<close> is a fraction that a
  double holds (\<^verbatim>\<open>0.3\<close> is \<open>5404319552844595 / 2 ^ 54\<close>, not \<open>3 / 10\<close>). Arithmetic
  on floats rounds its exact result to the nearest double, a tie going to the even
  significand.

  \<open>round_half_even\<close> is the integer nearest to a number, \<open>ilog2 q\<close> the exponent of
  the power of two at or below \<open>\<bar>q\<bar>\<close>, and \<open>round_sig prec k x\<close> the number of \<open>prec\<close>
  significant bits nearest to an \<open>x\<close> whose exponent is \<open>k\<close>. A double has 53
  significant bits. Exponents are not bounded here: the numbers of this program are
  far from the largest and the smallest double.
\<close>

definition round_half_even :: "'a::floor_ceiling \<Rightarrow> int" where
  "round_half_even x =
     (let f = \<lfloor>x\<rfloor>; d = x - of_int f
      in if d < 1 / 2 then f
         else if 1 / 2 < d then f + 1
         else if even f then f else f + 1)"

definition ilog2 :: "rat \<Rightarrow> int" where
  "ilog2 q =
     (let (a, b) = quotient_of \<bar>q\<bar>; k = bitlen a - bitlen b
      in if 2 powi k \<le> \<bar>q\<bar> then k else k - 1)"

definition round_sig :: "nat \<Rightarrow> int \<Rightarrow> 'a::floor_ceiling \<Rightarrow> 'a" where
  "round_sig prec k x =
     (let e = k - (int prec - 1)
      in of_int (round_half_even (x / 2 powi e)) * 2 powi e)"

definition float64 :: "rat \<Rightarrow> rat" where
  "float64 q = (if q = 0 then 0 else round_sig 53 (ilog2 q) q)"

text \<open>
  \<^verbatim>\<open>n * q\<close> for an integer \<open>n\<close> and a number \<open>q\<close>, as the source computes
  \<^verbatim>\<open>64*self.widen_factor*self.partial\<close>: the integer product \<^verbatim>\<open>64*self.widen_factor\<close>
  first, then its product with \<^verbatim>\<open>self.partial\<close>, rounded to a double. (When
  \<^verbatim>\<open>self.partial\<close> is an integer the product is exact, and so is it here, an integer
  below \<open>2 ^ 53\<close> being a double.)
\<close>

definition py_mul :: "nat \<Rightarrow> rat \<Rightarrow> rat" where
  "py_mul n q = float64 (of_nat n * q)"

text \<open>\<^verbatim>\<open>int(q)\<close> truncates towards zero.\<close>

definition py_int :: "rat \<Rightarrow> int" where
  "py_int q = (if 0 \<le> q then \<lfloor>q\<rfloor> else \<lceil>q\<rceil>)"

text \<open>
  The sigmoid, on the reals, and the float32 nearest to a real: 24 significant bits.
  The library computes in float32: its \<^verbatim>\<open>Sigmoid\<close> returns, for each value \<open>z\<close> of a
  tensor, a float32 for \<open>sigmoid z\<close>.
\<close>

definition sigmoid :: "real \<Rightarrow> real" where
  "sigmoid z = 1 / (1 + exp (- z))"

definition float32 :: "real \<Rightarrow> real" where
  "float32 x = (if x = 0 then 0 else round_sig 24 \<lfloor>log 2 \<bar>x\<bar>\<rfloor> x)"

subsection \<open>BasicBlock\<close>

text \<open>
  A module carries the flag \<^verbatim>\<open>training\<close>, which \<^verbatim>\<open>train()\<close> and \<^verbatim>\<open>eval()\<close> set
  on a model and on every layer in it. The constructors below take it as the argument
  \<open>mode\<close>: the mode the model is run in.
\<close>

record 'a BasicBlock =
  bn1 :: "'a \<Rightarrow> error + 'a"
  relu1 :: "'a \<Rightarrow> error + 'a"
  conv1 :: "'a \<Rightarrow> error + 'a"
  bn2 :: "'a \<Rightarrow> error + 'a"
  relu2 :: "'a \<Rightarrow> error + 'a"
  conv2 :: "'a \<Rightarrow> error + 'a"
  drop_rate :: rat
  equalInOut :: bool
  convShortcut :: "('a \<Rightarrow> error + 'a) option"
  activate_before_residual :: bool
  training :: bool

definition BasicBlock_init ::
  "'a torch \<Rightarrow> bool \<Rightarrow> nat \<Rightarrow> nat \<Rightarrow> nat \<Rightarrow> rat \<Rightarrow> bool \<Rightarrow> 'a BasicBlock" where
  "BasicBlock_init T mode in_planes out_planes stride dr abr =
     \<lparr>bn1 = BatchNorm2d T in_planes mode,
      relu1 = LeakyReLU T (1 / 10),
      conv1 = Conv2d T in_planes out_planes 3 stride 1 1,
      bn2 = BatchNorm2d T out_planes mode,
      relu2 = LeakyReLU T (1 / 10),
      conv2 = Conv2d T out_planes out_planes 3 1 1 1,
      drop_rate = dr,
      equalInOut = (in_planes = out_planes),
      convShortcut =
        (if in_planes \<noteq> out_planes then Some (Conv2d T in_planes out_planes 1 stride 0 1)
         else None),
      activate_before_residual = abr,
      training = mode\<rparr>"

text \<open>
  Calling \<^verbatim>\<open>self.convShortcut\<close>: calling \<^verbatim>\<open>None\<close> is a type error.
\<close>

definition call_shortcut :: "('a \<Rightarrow> error + 'a) option \<Rightarrow> 'a \<Rightarrow> error + 'a" where
  "call_shortcut sc x = (case sc of None \<Rightarrow> Inl TypeError | Some f \<Rightarrow> f x)"

text \<open>
  The first statement of both \<^verbatim>\<open>forward\<close> methods. It returns the two local
  variables \<^verbatim>\<open>x\<close> and \<^verbatim>\<open>out\<close> as they are after it: the first branch rebinds
  \<^verbatim>\<open>x\<close> and leaves \<^verbatim>\<open>out\<close> unbound, the second binds \<^verbatim>\<open>out\<close> and leaves
  \<^verbatim>\<open>x\<close> as it was.
\<close>

definition activate ::
  "('a, 'z) BasicBlock_scheme \<Rightarrow> 'a \<Rightarrow> error + ('a \<times> 'a option)" where
  "activate self x =
     (if \<not> equalInOut self \<and> activate_before_residual self = True then
        bindE (bn1 self x) (\<lambda>t. bindE (relu1 self t) (\<lambda>x'. Inr (x', None)))
      else
        bindE (bn1 self x) (\<lambda>t. bindE (relu1 self t) (\<lambda>out. Inr (x, Some out))))"

text \<open>The argument of \<^verbatim>\<open>self.conv1\<close>: \<^verbatim>\<open>out if self.equalInOut else x\<close>.\<close>

definition conv1_input :: "('a, 'z) BasicBlock_scheme \<Rightarrow> 'a \<Rightarrow> 'a option \<Rightarrow> error + 'a" where
  "conv1_input self x out =
     (if equalInOut self then
        (case out of None \<Rightarrow> Inl UnboundLocalError | Some v \<Rightarrow> Inr v)
      else Inr x)"

definition BasicBlock_forward :: "'a torch \<Rightarrow> 'a BasicBlock \<Rightarrow> 'a \<Rightarrow> error + 'a" where
  "BasicBlock_forward T self x0 =
     bindE (activate self x0) (\<lambda>(x, out0).
     bindE (conv1_input self x out0) (\<lambda>i.
     bindE (conv1 self i) (\<lambda>t.
     bindE (bn2 self t) (\<lambda>t.
     bindE (relu2 self t) (\<lambda>out.
     bindE (if 0 < drop_rate self then dropout T out (drop_rate self) (training self)
            else Inr out) (\<lambda>out.
     bindE (conv2 self out) (\<lambda>out.
     bindE (if equalInOut self then Inr x else call_shortcut (convShortcut self) x) (\<lambda>s.
       torch_add T s out))))))))"

subsection \<open>CDBasicBlock\<close>

record 'a CDBasicBlock = "'a BasicBlock" +
  attn :: "('a \<Rightarrow> error + 'a) option"

definition CDBasicBlock_init ::
  "'a torch \<Rightarrow> bool \<Rightarrow> nat \<Rightarrow> nat \<Rightarrow> nat \<Rightarrow> rat \<Rightarrow> bool \<Rightarrow> int \<Rightarrow> 'a CDBasicBlock" where
  "CDBasicBlock_init T mode in_planes out_planes stride dr abr av =
     \<lparr>bn1 = BatchNorm2d T in_planes mode,
      relu1 = LeakyReLU T (1 / 10),
      conv1 = Conv2d T in_planes out_planes 3 stride 1 1,
      bn2 = BatchNorm2d T out_planes mode,
      relu2 = LeakyReLU T (1 / 10),
      conv2 = Conv2d T out_planes out_planes 3 1 1 1,
      drop_rate = dr,
      equalInOut = (in_planes = out_planes),
      convShortcut =
        (if in_planes \<noteq> out_planes then Some (Conv2d T in_planes out_planes 1 stride 0 1)
         else None),
      activate_before_residual = abr,
      training = mode,
      attn =
        (if av = 1 then
           Some (Sequential
             [AdaptiveAvgPool2d T 1,
              Conv2d T out_planes (out_planes div 16) 1 1 0 1,
              ReLU T,
              Conv2d T (out_planes div 16) out_planes 1 1 0 1,
              Sigmoid T])
         else if av = 2 then
           Some (Sequential
             [AdaptiveAvgPool2d T 1,
              Conv2d T out_planes out_planes 1 1 0 out_planes,
              Sigmoid T])
         else if av = 3 then
           Some (Sequential
             [AdaptiveAvgPool2d T 1,
              Conv2d T out_planes out_planes 1 1 0 1,
              Sigmoid T])
         else None)\<rparr>"

text \<open>
  \<^verbatim>\<open>self.attn(out)\<close>: when the constructor has set no \<^verbatim>\<open>attn\<close>, reading the
  attribute is an attribute error.
\<close>

definition call_attn :: "('a \<Rightarrow> error + 'a) option \<Rightarrow> 'a \<Rightarrow> error + 'a" where
  "call_attn a x = (case a of None \<Rightarrow> Inl AttributeError | Some f \<Rightarrow> f x)"

definition CDBasicBlock_forward ::
  "'a torch \<Rightarrow> 'a CDBasicBlock \<Rightarrow> 'a \<Rightarrow> error + ('a \<times> 'a)" where
  "CDBasicBlock_forward T self x0 =
     bindE (activate self x0) (\<lambda>(x, out0).
     bindE (conv1_input self x out0) (\<lambda>i.
     bindE (conv1 self i) (\<lambda>t.
     bindE (bn2 self t) (\<lambda>out.
     bindE (relu2 self out) (\<lambda>out.
     bindE (if 0 < drop_rate self then dropout T out (drop_rate self) (training self)
            else Inr out) (\<lambda>out.
     bindE (conv2 self out) (\<lambda>out.
     bindE (call_attn (attn self) out) (\<lambda>masks.
     bindE (torch_mul T out masks) (\<lambda>out.
     bindE (if equalInOut self then Inr x else call_shortcut (convShortcut self) x) (\<lambda>s.
     bindE (torch_add T s out) (\<lambda>out.
       Inr (out, masks))))))))))))"

subsection \<open>CDWideResNet\<close>

text \<open>
  The fields \<^verbatim>\<open>conv1\<close>, \<^verbatim>\<open>bn1\<close> and \<^verbatim>\<open>training\<close> of the network are
  \<open>net_conv1\<close>, \<open>net_bn1\<close> and \<open>net_training\<close> here, the names without prefix being
  those of the blocks.
\<close>

record 'a CDWideResNet =
  attn_var :: int
  partial :: rat
  widen_factor :: nat
  net_conv1 :: "'a \<Rightarrow> error + 'a"
  block1 :: "'a BasicBlock list"
  block2 :: "'a BasicBlock list"
  block3 :: "'a CDBasicBlock list"
  net_bn1 :: "'a \<Rightarrow> error + 'a"
  relu :: "'a \<Rightarrow> error + 'a"
  fc :: "'a \<Rightarrow> error + 'a"
  channels :: nat
  net_training :: bool

text \<open>
  \<^verbatim>\<open>range(int(nb_layers))\<close>, for the number \<^verbatim>\<open>nb_layers = (depth - 4) / 6\<close> that the
  constructor passes: a whole number once the assertion has passed.
\<close>

definition make_layer ::
  "'a torch \<Rightarrow> bool \<Rightarrow> int \<Rightarrow> nat \<Rightarrow> nat \<Rightarrow> nat \<Rightarrow> rat \<Rightarrow> bool \<Rightarrow> 'a BasicBlock list" where
  "make_layer T mode nb_layers in_planes out_planes stride dr abr =
     map (\<lambda>i. BasicBlock_init T mode (and_or (i = 0) in_planes out_planes) out_planes
                 (and_or (i = 0) stride 1) dr abr)
       [0..<nat nb_layers]"

definition make_cd_layer ::
  "'a torch \<Rightarrow> bool \<Rightarrow> int \<Rightarrow> int \<Rightarrow> nat \<Rightarrow> nat \<Rightarrow> nat \<Rightarrow> rat \<Rightarrow> bool
     \<Rightarrow> 'a CDBasicBlock list" where
  "make_cd_layer T mode av nb_layers in_planes out_planes stride dr abr =
     map (\<lambda>i. CDBasicBlock_init T mode (and_or (i = 0) in_planes out_planes) out_planes
                 (and_or (i = 0) stride 1) dr abr av)
       [0..<nat nb_layers]"

definition CDWideResNet_init ::
  "'a torch \<Rightarrow> bool \<Rightarrow> nat \<Rightarrow> int \<Rightarrow> nat \<Rightarrow> rat \<Rightarrow> int \<Rightarrow> rat \<Rightarrow> error + 'a CDWideResNet" where
  "CDWideResNet_init T mode num_classes depth wfactor dr av p =
     (let chs = [16, 16 * wfactor, 32 * wfactor, 64 * wfactor] in
      if \<not> ((depth - 4) mod 6 = 0) then Inl AssertionError
      else
        let n = (depth - 4) div 6 in
        Inr \<lparr>attn_var = av,
             partial = p,
             widen_factor = wfactor,
             net_conv1 = Conv2d T 3 (chs ! 0) 3 1 1 1,
             block1 = make_layer T mode n (chs ! 0) (chs ! 1) 1 dr True,
             block2 = make_layer T mode n (chs ! 1) (chs ! 2) 2 dr False,
             block3 = make_cd_layer T mode av n (chs ! 2) (chs ! 3) 2 dr False,
             net_bn1 = BatchNorm2d T (chs ! 3) mode,
             relu = LeakyReLU T (1 / 10),
             fc = Linear T (chs ! 3) num_classes,
             channels = chs ! 3,
             net_training = mode\<rparr>)"

text \<open>
  The loop over \<^verbatim>\<open>self.block3\<close>, with the local variables \<^verbatim>\<open>out\<close> and
  \<^verbatim>\<open>mask_per_layer\<close> as its state.
\<close>

fun block3_loop ::
  "'a torch \<Rightarrow> 'a CDWideResNet \<Rightarrow> 'a CDBasicBlock list \<Rightarrow> 'a \<Rightarrow> 'a list
     \<Rightarrow> error + ('a \<times> 'a list)" where
  "block3_loop T self [] out mask_per_layer = Inr (out, mask_per_layer)"
| "block3_loop T self (layer # layers) out mask_per_layer =
     bindE (CDBasicBlock_forward T layer out) (\<lambda>(out, mask).
       let mask = squeeze T mask in
       if partial self < 1 then
         bindE (slice_dim1 T mask (py_int (py_mul (64 * widen_factor self) (partial self))))
           (\<lambda>m. block3_loop T self layers out (mask_per_layer @ [m]))
       else block3_loop T self layers out (mask_per_layer @ [mask]))"

text \<open>
  The body of \<^verbatim>\<open>forward\<close> up to its last statement: the values of the local
  variables \<^verbatim>\<open>logits\<close> and \<^verbatim>\<open>mask\<close> there.
\<close>

definition forward_locals :: "'a torch \<Rightarrow> 'a CDWideResNet \<Rightarrow> 'a \<Rightarrow> error + ('a \<times> 'a)" where
  "forward_locals T self x =
     bindE (net_conv1 self x) (\<lambda>out.
     bindE (Sequential (map (BasicBlock_forward T) (block1 self)) out) (\<lambda>out.
     bindE (Sequential (map (BasicBlock_forward T) (block2 self)) out) (\<lambda>out.
     bindE (block3_loop T self (block3 self) out []) (\<lambda>(out, mask_per_layer).
     bindE (cat T mask_per_layer 1) (\<lambda>mask.
     bindE (net_bn1 self out) (\<lambda>out.
     bindE (relu self out) (\<lambda>out.
     bindE (adaptive_avg_pool2d T out 1) (\<lambda>out.
     bindE (view2 T out (channels self)) (\<lambda>out.
     bindE (fc self out) (\<lambda>logits.
       Inr (logits, mask)))))))))))"

text \<open>
  What a Python function returns: one tensor, or a tuple of values. The last statement
  of \<^verbatim>\<open>forward\<close> is \<^verbatim>\<open>return logits\<close>.
\<close>

datatype 'a pyval = Tensor 'a | Tuple "'a pyval list"

definition CDWideResNet_forward ::
  "'a torch \<Rightarrow> 'a CDWideResNet \<Rightarrow> 'a \<Rightarrow> error + 'a pyval" where
  "CDWideResNet_forward T self x =
     bindE (forward_locals T self x) (\<lambda>(logits, mask). Inr (Tensor logits))"

definition CDWRN28 :: "'a torch \<Rightarrow> bool \<Rightarrow> nat \<Rightarrow> nat \<Rightarrow> error + 'a CDWideResNet" where
  "CDWRN28 T mode num_classes wfactor = CDWideResNet_init T mode num_classes 28 wfactor 0 1 1"

text \<open>
  The calls \<^verbatim>\<open>CDWideResNet(num_classes, depth, widen_factor, drop_rate, attn_var,
  partial)(x)\<close> and \<^verbatim>\<open>CDWRN28(num_classes, widen_factor)(x)\<close>, on a model put in the
  given mode: what the call returns, and the local variables of \<^verbatim>\<open>forward\<close> in it.
\<close>

definition CDWideResNet_locals ::
  "'a torch \<Rightarrow> bool \<Rightarrow> nat \<Rightarrow> int \<Rightarrow> nat \<Rightarrow> rat \<Rightarrow> int \<Rightarrow> rat \<Rightarrow> 'a \<Rightarrow> error + ('a \<times> 'a)" where
  "CDWideResNet_locals T mode num_classes depth wfactor dr av p x =
     bindE (CDWideResNet_init T mode num_classes depth wfactor dr av p)
       (\<lambda>model. forward_locals T model x)"

definition CDWRN28_forward :: "'a torch \<Rightarrow> bool \<Rightarrow> nat \<Rightarrow> nat \<Rightarrow> 'a \<Rightarrow> error + 'a pyval" where
  "CDWRN28_forward T mode num_classes wfactor x =
     bindE (CDWRN28 T mode num_classes wfactor) (\<lambda>model. CDWideResNet_forward T model x)"

definition CDWRN28_locals :: "'a torch \<Rightarrow> bool \<Rightarrow> nat \<Rightarrow> nat \<Rightarrow> 'a \<Rightarrow> error + ('a \<times> 'a)" where
  "CDWRN28_locals T mode num_classes wfactor x =
     bindE (CDWRN28 T mode num_classes wfactor) (\<lambda>model. forward_locals T model x)"

subsection \<open>Tensors as shapes\<close>

text \<open>
  The interpretation of the library that the claims on shapes are settled in: a tensor
  is its shape, the list of its dimensions, and each operation maps shapes as the
  library documents it, raising where the library raises. Convolution takes a batch
  \<open>[b, c, h, w]\<close> or a single image \<open>[c, h, w]\<close> whose channels are the layer's
  input channels; batch normalisation takes a batch whose channels are the layer's
  features and, in training mode, refuses a batch with a single value per channel;
  the activations keep the shape; arithmetic broadcasts, aligning the dimensions from
  the right; \<open>squeeze\<close> drops every dimension of size 1; concatenation takes a
  non-empty list of tensors that agree outside the dimension they are joined on.
  A layer constructor does not raise here; a convolution without input or output
  channels raises when it is applied.
\<close>

type_synonym tshape = "nat list"

definition conv_out :: "nat \<Rightarrow> nat \<Rightarrow> nat \<Rightarrow> nat \<Rightarrow> nat" where
  "conv_out n k s p = (n + 2 * p - k) div s + 1"

definition conv2d_shape ::
  "nat \<Rightarrow> nat \<Rightarrow> nat \<Rightarrow> nat \<Rightarrow> nat \<Rightarrow> nat \<Rightarrow> tshape \<Rightarrow> error + tshape" where
  "conv2d_shape cin cout k s p g x =
     (if cin = 0 \<or> cout = 0 then Inl RuntimeError
      else
        case x of
          [b, c, h, w] \<Rightarrow>
            if c = cin \<and> 0 < s \<and> k \<le> h + 2 * p \<and> k \<le> w + 2 * p
            then Inr [b, cout, conv_out h k s p, conv_out w k s p]
            else Inl RuntimeError
        | [c, h, w] \<Rightarrow>
            if c = cin \<and> 0 < s \<and> k \<le> h + 2 * p \<and> k \<le> w + 2 * p
            then Inr [cout, conv_out h k s p, conv_out w k s p]
            else Inl RuntimeError
        | _ \<Rightarrow> Inl RuntimeError)"

definition batchnorm2d_shape :: "nat \<Rightarrow> bool \<Rightarrow> tshape \<Rightarrow> error + tshape" where
  "batchnorm2d_shape n mode x =
     (case x of
        [b, c, h, w] \<Rightarrow>
          if mode \<and> b * h * w = 1 then Inl ValueError
          else if c \<noteq> n then Inl RuntimeError
          else Inr x
      | _ \<Rightarrow> Inl ValueError)"

definition linear_shape :: "nat \<Rightarrow> nat \<Rightarrow> tshape \<Rightarrow> error + tshape" where
  "linear_shape cin cout x =
     (if x \<noteq> [] \<and> last x = cin then Inr (butlast x @ [cout]) else Inl RuntimeError)"

definition dropout_shape :: "tshape \<Rightarrow> rat \<Rightarrow> bool \<Rightarrow> error + tshape" where
  "dropout_shape x p mode = (if p < 0 \<or> 1 < p then Inl ValueError else Inr x)"

text \<open>Broadcasting, on the reversed shapes.\<close>

fun broadcast_rev :: "nat list \<Rightarrow> nat list \<Rightarrow> nat list option" where
  "broadcast_rev [] ys = Some ys"
| "broadcast_rev xs [] = Some xs"
| "broadcast_rev (x # xs) (y # ys) =
     (if x = y \<or> y = 1 then map_option (Cons x) (broadcast_rev xs ys)
      else if x = 1 then map_option (Cons y) (broadcast_rev xs ys)
      else None)"

definition broadcast :: "tshape \<Rightarrow> tshape \<Rightarrow> error + tshape" where
  "broadcast x y =
     (case broadcast_rev (rev x) (rev y) of
        None \<Rightarrow> Inl RuntimeError
      | Some r \<Rightarrow> Inr (rev r))"

definition squeeze_shape :: "tshape \<Rightarrow> tshape" where
  "squeeze_shape x = filter (\<lambda>d. d \<noteq> 1) x"

text \<open>
  \<^verbatim>\<open>x[:, 0:k]\<close>: two indices need two dimensions; the slice \<^verbatim>\<open>0:k\<close> of a
  dimension of size \<open>d\<close> stops at \<open>k\<close>, counted from the end when negative, and
  within \<open>0\<close> and \<open>d\<close>.
\<close>

definition slice_stop :: "nat \<Rightarrow> int \<Rightarrow> nat" where
  "slice_stop d k = (if k < 0 then nat (int d + k) else min (nat k) d)"

definition slice_dim1_shape :: "tshape \<Rightarrow> int \<Rightarrow> error + tshape" where
  "slice_dim1_shape x k =
     (case x of
        b # d # rest \<Rightarrow> Inr (b # slice_stop d k # rest)
      | _ \<Rightarrow> Inl IndexError)"

text \<open>
  \<^verbatim>\<open>torch.cat(xs, dim)\<close>: the list is not empty, the dimension is one of the first
  tensor's, and the tensors agree in every other dimension.
\<close>

definition cat_shape :: "tshape list \<Rightarrow> nat \<Rightarrow> error + tshape" where
  "cat_shape xs d =
     (case xs of
        [] \<Rightarrow> Inl RuntimeError
      | x # rest \<Rightarrow>
          if x = [] then Inl RuntimeError
          else if length x \<le> d then Inl IndexError
          else if list_all (\<lambda>y. length y = length x \<and> y[d := 0] = x[d := 0]) rest
          then Inr (x[d := sum_list (map (\<lambda>y. y ! d) xs)])
          else Inl RuntimeError)"

definition adaptive_avg_pool2d_shape :: "tshape \<Rightarrow> nat \<Rightarrow> error + tshape" where
  "adaptive_avg_pool2d_shape x n =
     (case x of
        [b, c, h, w] \<Rightarrow> if 0 < h \<and> 0 < w then Inr [b, c, n, n] else Inl RuntimeError
      | [c, h, w] \<Rightarrow> if 0 < h \<and> 0 < w then Inr [c, n, n] else Inl RuntimeError
      | _ \<Rightarrow> Inl RuntimeError)"

text \<open>\<^verbatim>\<open>x.view(-1, c)\<close>: the number of elements is a multiple of \<open>c\<close>.\<close>

definition view2_shape :: "tshape \<Rightarrow> nat \<Rightarrow> error + tshape" where
  "view2_shape x c =
     (if c = 0 \<or> prod_list x mod c \<noteq> 0 then Inl RuntimeError
      else Inr [prod_list x div c, c])"

definition shapes :: "tshape torch" where
  "shapes =
     \<lparr>Conv2d = conv2d_shape,
      BatchNorm2d = batchnorm2d_shape,
      LeakyReLU = (\<lambda>slope x. Inr x),
      ReLU = Inr,
      Sigmoid = Inr,
      Linear = linear_shape,
      dropout = dropout_shape,
      torch_add = broadcast,
      torch_mul = broadcast,
      squeeze = squeeze_shape,
      slice_dim1 = slice_dim1_shape,
      cat = cat_shape,
      adaptive_avg_pool2d = adaptive_avg_pool2d_shape,
      view2 = view2_shape\<rparr>"

subsection \<open>Tensors as expressions\<close>

text \<open>
  The free interpretation of the library: a tensor is the expression that computes it
  from the inputs, each operation building the expression of its result, and no
  operation raises. It shows which value flows into which layer.
\<close>

datatype expr =
  Var string
  | Conv2dE nat nat nat nat nat nat expr
  | BatchNorm2dE nat bool expr
  | LeakyReLUE rat expr
  | ReLUE expr
  | SigmoidE expr
  | LinearE nat nat expr
  | DropoutE expr rat bool
  | AddE expr expr
  | MulE expr expr
  | SqueezeE expr
  | SliceE expr int
  | CatE "expr list" nat
  | PoolE expr nat
  | ViewE expr nat

definition symbolic :: "expr torch" where
  "symbolic =
     \<lparr>Conv2d = (\<lambda>cin cout k s p g x. Inr (Conv2dE cin cout k s p g x)),
      BatchNorm2d = (\<lambda>n mode x. Inr (BatchNorm2dE n mode x)),
      LeakyReLU = (\<lambda>slope x. Inr (LeakyReLUE slope x)),
      ReLU = (\<lambda>x. Inr (ReLUE x)),
      Sigmoid = (\<lambda>x. Inr (SigmoidE x)),
      Linear = (\<lambda>cin cout x. Inr (LinearE cin cout x)),
      dropout = (\<lambda>x p mode. Inr (DropoutE x p mode)),
      torch_add = (\<lambda>x y. Inr (AddE x y)),
      torch_mul = (\<lambda>x y. Inr (MulE x y)),
      squeeze = SqueezeE,
      slice_dim1 = (\<lambda>x k. Inr (SliceE x k)),
      cat = (\<lambda>xs d. Inr (CatE xs d)),
      adaptive_avg_pool2d = (\<lambda>x n. Inr (PoolE x n)),
      view2 = (\<lambda>x c. Inr (ViewE x c))\<rparr>"

section \<open>Results in the exception monad\<close>

lemma bindE_Inl [simp]: "bindE (Inl e) f = Inl e"
  by (simp add: bindE_def)

lemma bindE_Inr [simp]: "bindE (Inr v) f = f v"
  by (simp add: bindE_def)

section \<open>Properties of the trigger transforms\<close>

lemma add_trigger_j_zeros:
  "add_trigger_j (zeros [10, 10, 3]) [6, 7, 8] [6, 7, 8] = (None, corner_patch)"
  by code_simp

text \<open>
  C6. On a 10 by 10 by 3 image of zeros held at reference \<open>r\<close>, the BadNets transform
  with trigger size 3 returns the reference it was given, and the store holds at that
  reference the image whose pixels at rows 6 to 8 and columns 6 to 8 are 255 in each
  of the three channels and whose other pixels are 0; no other reference changes.
\<close>

theorem badnets_corner_patch:
  "add_trigger \<lparr>trigger_size = 3\<rparr> r (h(r := zeros [10, 10, 3]))
     = (Inr r, h(r := corner_patch))"
proof -
  have s: "shape (zeros [10, 10, 3]) = [10, 10, 3]"
    by (simp add: zeros_def)
  have r: "py_range 6 9 = [6, 7, 8]"
    by code_simp
  show ?thesis
    by (simp add: add_trigger_def shape_at_def s r add_trigger_j_zeros
          del: add_trigger_j.simps)
qed

text \<open>
  C7. The Blend transform raises a type error on every argument that is not an array
  and a value error on every array whose number of axes is not 3 (so on every array
  of two axes), whatever the imaging library would do: no operation of the library
  decides the result.
\<close>

theorem blend_trigger_rejects:
  "blend_trigger lib self (Other t) = Inl TypeError \<and>
   (length (shape a) \<noteq> 3 \<longrightarrow> blend_trigger lib self (Array a) = Inl ValueError) \<and>
   blend_trigger lib self (Array \<lparr>shape = [hh, ww], data = d\<rparr>) = Inl ValueError"
  by (simp add: blend_trigger_def)

theorem blend_trigger_rejects_witness:
  "\<forall>lib self.
     length (shape \<lparr>shape = [4, 4], data = replicate 16 7\<rparr>) \<noteq> 3 \<and>
     blend_trigger lib self (Array \<lparr>shape = [4, 4], data = replicate 16 7\<rparr>) = Inl ValueError \<and>
     blend_trigger lib self (Other ''list'') = Inl TypeError"
proof (intro allI)
  fix lib :: "'a pil" and self :: "'a Blend"
  show "length (shape \<lparr>shape = [4, 4], data = replicate 16 7\<rparr>) \<noteq> 3 \<and>
     blend_trigger lib self (Array \<lparr>shape = [4, 4], data = replicate 16 7\<rparr>) = Inl ValueError \<and>
     blend_trigger lib self (Other ''list'') = Inl TypeError"
    using blend_trigger_rejects
      [of lib self "''list''" "\<lparr>shape = [4, 4], data = replicate 16 7\<rparr>"]
    by simp
qed

section \<open>Rounding\<close>

lemma powi_real_of_rat: "real_of_rat (2 powi k) = 2 powi k"
  by (simp add: power_int_def of_rat_inverse of_rat_power of_rat_divide)

lemma powr_powi: "(2::real) powr (of_int k) = 2 powi k"
  by (simp add: powr_real_of_int')

lemma ilog2_floor_log:
  assumes "0 < q"
  shows "ilog2 q = \<lfloor>log 2 (real_of_rat q)\<rfloor>"
proof -
  obtain a b where ab: "quotient_of q = (a, b)"
    by (cases "quotient_of q")
  have b: "0 < b"
    using ab by (rule quotient_of_denom_pos)
  have q: "q = of_int a / of_int b"
    using ab by (rule quotient_of_div)
  have a: "0 < a"
    using assms b q by (simp add: zero_less_divide_iff)
  have rq: "real_of_rat q = real_of_int a / real_of_int b"
    by (simp add: q of_rat_divide)
  define k where "k = \<lfloor>log 2 (real_of_int a)\<rfloor> - \<lfloor>log 2 (real_of_int b)\<rfloor>"
  have bl: "bitlen a - bitlen b = k"
    using a b by (simp add: bitlen_alt_def k_def)
  define L where "L = log 2 (real_of_rat q)"
  have L: "L = log 2 (real_of_int a) - log 2 (real_of_int b)"
    using a b by (simp add: L_def rq log_divide)
  have lo: "of_int k - 1 < L" and hi: "L < of_int k + 1"
    unfolding L k_def by linarith+
  have test: "(2 powi k \<le> q) \<longleftrightarrow> of_int k \<le> L"
  proof -
    have "(2 powi k \<le> q) \<longleftrightarrow> (real_of_rat (2 powi k) \<le> real_of_rat q)"
      by (simp add: of_rat_less_eq)
    also have "\<dots> \<longleftrightarrow> (2 powr (of_int k) \<le> real_of_rat q)"
      by (simp add: powi_real_of_rat powr_powi)
    also have "\<dots> \<longleftrightarrow> of_int k \<le> L"
      using assms by (simp add: L_def powr_le_iff)
    finally show ?thesis .
  qed
  have "ilog2 q = (if 2 powi k \<le> q then k else k - 1)"
    using assms by (simp add: ilog2_def ab bl abs_of_pos)
  also have "\<dots> = \<lfloor>L\<rfloor>"
    using test lo hi by (auto intro!: floor_unique [symmetric])
  finally show ?thesis
    by (simp add: L_def)
qed

lemma ilog2_unique:
  assumes "0 < q" "2 powi k \<le> q" "q < 2 powi (k + 1)"
  shows "ilog2 q = k"
proof -
  have "2 powr (of_int k) \<le> real_of_rat q"
    using assms(2) by (metis of_rat_less_eq powi_real_of_rat powr_powi)
  moreover have "real_of_rat q < 2 powr (of_int (k + 1))"
    using assms(3) by (metis of_rat_less powi_real_of_rat powr_powi)
  ultimately have "\<lfloor>log 2 (real_of_rat q)\<rfloor> = k"
    using assms(1) by (simp add: floor_log_eq_powr_iff)
  then show ?thesis
    by (simp add: ilog2_floor_log [OF assms(1)])
qed

lemma float64_eval:
  assumes "0 < q" "2 powi k \<le> q" "q < 2 powi (k + 1)"
  shows "float64 q = of_int (round_half_even (q / 2 powi (k - 52))) * 2 powi (k - 52)"
  using assms(1) by (simp add: float64_def round_sig_def Let_def ilog2_unique [OF assms])

lemma round_half_even_nonneg: "0 \<le> x \<Longrightarrow> 0 \<le> round_half_even x"
  by (simp add: round_half_even_def Let_def)

lemma round_half_even_of_int [simp]: "round_half_even (of_int n) = n"
  by (simp add: round_half_even_def)

lemma round_half_even_near:
  assumes "of_int n - 1 / 2 < x" "x < of_int n + 1 / 2"
  shows "round_half_even x = n"
proof (cases "of_int n \<le> x")
  case True
  then have "\<lfloor>x\<rfloor> = n"
    using assms(2) by (intro floor_unique) simp_all
  then show ?thesis
    using assms(2) by (simp add: round_half_even_def)
next
  case False
  then have f: "\<lfloor>x\<rfloor> = n - 1"
    using assms(1) by (intro floor_unique) simp_all
  have "\<not> x - of_int (n - 1) < 1 / 2" "1 / 2 < x - of_int (n - 1)"
    using assms(1) by simp_all
  then show ?thesis
    by (simp add: round_half_even_def f)
qed

lemma float64_nonneg: "0 \<le> q \<Longrightarrow> 0 \<le> float64 q"
  by (simp add: float64_def round_sig_def Let_def round_half_even_nonneg)

lemma float64_example_1: "float64 (320 * (5404319552844595 / 18014398509481984)) = 96"
proof -
  let ?q = "320 * (5404319552844595 / 18014398509481984) :: rat"
  have "float64 ?q = of_int (round_half_even (?q / 2 powi (6 - 52))) * 2 powi (6 - 52)"
    by (rule float64_eval) simp_all
  moreover have "round_half_even (?q / 2 powi (6 - 52)) = 6755399441055744"
    by (rule round_half_even_near) (simp_all add: power_int_minus)
  ultimately show ?thesis
    by (simp add: power_int_minus)
qed

lemma float64_example_2: "float64 64 = 64"
proof -
  have "float64 64 = of_int (round_half_even ((64::rat) / 2 powi (6 - 52))) * 2 powi (6 - 52)"
    by (rule float64_eval) simp_all
  moreover have "round_half_even ((64::rat) / 2 powi (6 - 52)) = 4503599627370496"
    by (rule round_half_even_near) (simp_all add: power_int_minus)
  ultimately show ?thesis
    by (simp add: power_int_minus)
qed

lemma sigmoid_open: "0 < sigmoid z \<and> sigmoid z < 1"
proof -
  have "0 < exp (- z)"
    by simp
  then have "1 < 1 + exp (- z)"
    by simp
  then have "0 < 1 / (1 + exp (- z))" "1 / (1 + exp (- z)) < 1"
    by (simp_all add: add_pos_pos)
  then show ?thesis
    by (simp add: sigmoid_def)
qed

lemma exp_100: "(2::real) ^ 26 < exp 100"
proof -
  have "(2::real) \<le> exp 1"
    using exp_ge_add_one_self [of 1] by simp
  then have "(2::real) ^ 100 \<le> exp 1 ^ 100"
    by (intro power_mono) simp_all
  also have "\<dots> = exp 100"
    using exp_of_nat_mult [of 100 "1::real"] by simp
  finally have "(2::real) ^ 100 \<le> exp 100" .
  moreover have "(2::real) ^ 26 < 2 ^ 100"
    by simp
  ultimately show ?thesis
    by linarith
qed

lemma sigmoid_100: "1 - 1 / 2 ^ 26 < sigmoid 100" "sigmoid 100 < 1"
proof -
  define t where "t = exp (- 100 :: real)"
  have t0: "0 < t"
    by (simp add: t_def)
  have "t = 1 / exp 100"
    by (simp add: t_def exp_minus divide_simps)
  also have "\<dots> < 1 / 2 ^ 26"
    using exp_100 by (intro divide_strict_left_mono) simp_all
  finally have t1: "t < 1 / 2 ^ 26" .
  have "(1 - t) * (1 + t) < 1"
    using t0 by (simp add: algebra_simps)
  then have "1 - t < 1 / (1 + t)"
    using t0 by (simp add: pos_less_divide_eq)
  then show "1 - 1 / 2 ^ 26 < sigmoid 100"
    using t1 by (simp add: sigmoid_def t_def)
  show "sigmoid 100 < 1"
    using sigmoid_open by simp
qed

lemma float32_sigmoid_100: "float32 (sigmoid 100) = 1"
proof -
  define y where "y = sigmoid 100"
  have lo: "1 - 1 / 2 ^ 26 < y" and hi: "y < 1"
    using sigmoid_100 by (simp_all add: y_def)
  have pos: "0 < y"
    using lo by simp
  have "\<lfloor>log 2 y\<rfloor> = - 1"
    using pos lo hi by (simp add: floor_log_eq_powr_iff powr_minus)
  then have "float32 y = of_int (round_half_even (y / 2 powi (- 24))) * 2 powi (- 24)"
    using pos by (simp add: float32_def round_sig_def Let_def)
  moreover have "round_half_even (y / 2 powi (- 24)) = 16777216"
    using lo hi by (intro round_half_even_near) (simp_all add: power_int_minus)
  ultimately show ?thesis
    by (simp add: y_def power_int_minus)
qed

section \<open>Shapes through the layers and the blocks\<close>

lemma shapes_simps [simp]:
  "Conv2d shapes = conv2d_shape"
  "BatchNorm2d shapes = batchnorm2d_shape"
  "LeakyReLU shapes = (\<lambda>slope x. Inr x)"
  "ReLU shapes = Inr"
  "Sigmoid shapes = Inr"
  "Linear shapes = linear_shape"
  "dropout shapes = dropout_shape"
  "torch_add shapes = broadcast"
  "torch_mul shapes = broadcast"
  "squeeze shapes = squeeze_shape"
  "slice_dim1 shapes = slice_dim1_shape"
  "cat shapes = cat_shape"
  "adaptive_avg_pool2d shapes = adaptive_avg_pool2d_shape"
  "view2 shapes = view2_shape"
  by (simp_all add: shapes_def)

lemma conv_out_pos [simp]: "0 < conv_out n k s p"
  by (simp add: conv_out_def)

lemma conv_out_unit [simp]: "0 < n \<Longrightarrow> conv_out n 3 (Suc 0) (Suc 0) = n"
  by (simp add: conv_out_def)

lemma conv_out_shortcut [simp]: "0 < n \<Longrightarrow> conv_out n (Suc 0) s 0 = conv_out n 3 s (Suc 0)"
  by (simp add: conv_out_def)

lemma conv3_shape [simp]:
  "0 < cin \<Longrightarrow> 0 < cout \<Longrightarrow> 0 < s \<Longrightarrow> 0 < h \<Longrightarrow> 0 < w \<Longrightarrow>
   conv2d_shape cin cout 3 s (Suc 0) g [b, cin, h, w]
     = Inr [b, cout, conv_out h 3 s (Suc 0), conv_out w 3 s (Suc 0)]"
  by (auto simp add: conv2d_shape_def)

lemma conv1_shape [simp]:
  "0 < cin \<Longrightarrow> 0 < cout \<Longrightarrow> 0 < s \<Longrightarrow> 0 < h \<Longrightarrow> 0 < w \<Longrightarrow>
   conv2d_shape cin cout (Suc 0) s 0 g [b, cin, h, w]
     = Inr [b, cout, conv_out h 3 s (Suc 0), conv_out w 3 s (Suc 0)]"
  by (auto simp add: conv2d_shape_def)

lemma batchnorm_shape [simp]:
  "\<not> mode \<or> 1 < b \<Longrightarrow> batchnorm2d_shape c mode [b, c, h, w] = Inr [b, c, h, w]"
  by (auto simp add: batchnorm2d_shape_def)

lemma dropout_step [simp]:
  "0 \<le> dr \<Longrightarrow> dr \<le> 1 \<Longrightarrow> (if 0 < dr then dropout_shape t dr m else Inr t) = Inr t"
  by (simp add: dropout_shape_def)

lemma broadcast_rev_same: "broadcast_rev xs xs = Some xs"
  by (induction xs) simp_all

lemma broadcast_same [simp]: "broadcast x x = Inr x"
  by (simp add: broadcast_def broadcast_rev_same)

lemma broadcast_gate [simp]: "broadcast [b, c, h, w] [b, c, Suc 0, Suc 0] = Inr [b, c, h, w]"
  by (simp add: broadcast_def)

lemma BasicBlock_shape:
  assumes "0 < s" "0 < h" "0 < w" "\<not> mode \<or> 1 < b" "0 \<le> dr" "dr \<le> 1" "cin \<noteq> cout \<or> s = 1"
    "0 < cin" "0 < cout"
  shows "BasicBlock_forward shapes (BasicBlock_init shapes mode cin cout s dr abr) [b, cin, h, w]
           = Inr [b, cout, conv_out h 3 s 1, conv_out w 3 s 1]"
proof (cases "cin = cout")
  case True
  with assms have s: "s = 1" by simp
  show ?thesis
    using assms True
    by (simp add: s BasicBlock_forward_def BasicBlock_init_def activate_def conv1_input_def
        call_shortcut_def cong: if_cong)
next
  case False
  show ?thesis
    using assms False
    by (simp add: BasicBlock_forward_def BasicBlock_init_def activate_def conv1_input_def
        call_shortcut_def cong: if_cong)
qed

lemma attn_shape:
  assumes "0 < h" "0 < w" "av = 1 \<or> av = 2 \<or> av = 3" "0 < cout" "av = 1 \<Longrightarrow> 16 \<le> cout"
  shows "call_attn (attn (CDBasicBlock_init shapes mode cin cout s dr abr av)) [b, cout, h, w]
           = Inr [b, cout, 1, 1]"
  using assms
  by (auto simp add: CDBasicBlock_init_def call_attn_def AdaptiveAvgPool2d_def
      adaptive_avg_pool2d_shape_def conv2d_shape_def conv_out_def)

lemma CDBasicBlock_shape:
  assumes "0 < s" "0 < h" "0 < w" "\<not> mode \<or> 1 < b" "0 \<le> dr" "dr \<le> 1" "cin \<noteq> cout \<or> s = 1"
    "av = 1 \<or> av = 2 \<or> av = 3" "0 < cin" "0 < cout" "av = 1 \<Longrightarrow> 16 \<le> cout"
  shows "CDBasicBlock_forward shapes (CDBasicBlock_init shapes mode cin cout s dr abr av)
           [b, cin, h, w]
           = Inr ([b, cout, conv_out h 3 s 1, conv_out w 3 s 1], [b, cout, 1, 1])"
proof -
  define blk where "blk = CDBasicBlock_init shapes mode cin cout s dr abr av"
  define h' w' where "h' = conv_out h 3 s (Suc 0)" and "w' = conv_out w 3 s (Suc 0)"
  have pos: "0 < h'" "0 < w'"
    by (simp_all add: h'_def w'_def)
  have a: "call_attn (attn blk) [b, cout, h', w'] = Inr [b, cout, Suc 0, Suc 0]"
    using attn_shape [OF pos assms(8) assms(10) assms(11), of mode cin s dr abr b]
    by (simp add: blk_def)
  have f: "bn1 blk = batchnorm2d_shape cin mode" "relu1 blk = Inr"
    "conv1 blk = conv2d_shape cin cout 3 s 1 1" "bn2 blk = batchnorm2d_shape cout mode"
    "relu2 blk = Inr" "conv2 blk = conv2d_shape cout cout 3 1 1 1" "drop_rate blk = dr"
    "equalInOut blk = (cin = cout)" "activate_before_residual blk = abr" "training blk = mode"
    "convShortcut blk = (if cin \<noteq> cout then Some (conv2d_shape cin cout 1 s 0 1) else None)"
    by (simp_all add: blk_def CDBasicBlock_init_def)
  have c1: "conv2d_shape cin cout 3 s (Suc 0) (Suc 0) [b, cin, h, w] = Inr [b, cout, h', w']"
    using assms(1-3,9,10) by (simp add: h'_def w'_def)
  have c2: "conv2d_shape cout cout 3 (Suc 0) (Suc 0) (Suc 0) [b, cout, h', w'] = Inr [b, cout, h', w']"
    using pos assms(10) by simp
  have sc: "(if equalInOut blk then Inr [b, cin, h, w] else call_shortcut (convShortcut blk) [b, cin, h, w])
              = Inr [b, cout, h', w']"
  proof (cases "cin = cout")
    case True
    with assms(7) have "s = 1" by simp
    with assms(2,3) True show ?thesis by (simp add: f h'_def w'_def)
  next
    case False
    with assms(1-3,9,10) show ?thesis by (simp add: f call_shortcut_def h'_def w'_def)
  qed
  have act: "activate blk [b, cin, h, w] =
      Inr ([b, cin, h, w], if \<not> equalInOut blk \<and> abr then None else Some [b, cin, h, w])"
    using assms(4) by (simp add: activate_def f(1,2,9))
  have ci: "conv1_input blk [b, cin, h, w]
              (if \<not> equalInOut blk \<and> abr then None else Some [b, cin, h, w])
      = Inr [b, cin, h, w]"
    by (simp add: conv1_input_def)
  have "CDBasicBlock_forward shapes blk [b, cin, h, w] = Inr ([b, cout, h', w'], [b, cout, Suc 0, Suc 0])"
    using assms(4-6)
    by (simp add: CDBasicBlock_forward_def act ci f(3-7,10) c1 c2 a sc cong: if_cong)
  then show ?thesis by (simp add: blk_def h'_def w'_def)
qed

section \<open>Properties of the network\<close>

text \<open>
  C9. The constructor of the network fails, with an assertion error, for every depth
  with \<open>(depth - 4) mod 6 \<noteq> 0\<close>, passes the assertion and returns a network for
  every depth with \<open>(depth - 4) mod 6 = 0\<close>, and fails for depth 27.
\<close>

theorem depth_check:
  "((depth - 4) mod 6 \<noteq> 0 \<longrightarrow>
      CDWideResNet_init T mode nc depth wfactor dr av p = Inl AssertionError) \<and>
   ((depth - 4) mod 6 = 0 \<longrightarrow>
      (\<exists>net. CDWideResNet_init T mode nc depth wfactor dr av p = Inr net)) \<and>
   CDWideResNet_init T mode nc 27 wfactor dr av p = Inl AssertionError"
  by (simp add: CDWideResNet_init_def Let_def)

theorem depth_check_witness:
  "(27 - 4) mod 6 \<noteq> (0::int) \<and>
   CDWideResNet_init shapes True 10 27 2 0 1 1 = Inl AssertionError \<and>
   (28 - 4) mod 6 = (0::int) \<and>
   (\<exists>net. CDWideResNet_init shapes True 10 28 2 0 1 1 = Inr net)"
  using depth_check [of 27 shapes True 10 2 0 1 1] depth_check [of 28 shapes True 10 2 0 1 1]
  by simp

text \<open>
  C3. What the plain block computes when its input and output channels differ and
  \<^verbatim>\<open>activate_before_residual\<close> is false, read off the expression of its result:
  the first convolution and the shortcut projection both take the raw input \<open>x\<close>.
  The normalised and activated value of \<open>x\<close> is computed and occurs nowhere in the
  result, so it does not feed the residual path.
\<close>

theorem basic_block_conv1_gets_raw_input:
  "cin \<noteq> cout \<Longrightarrow>
   BasicBlock_forward symbolic (BasicBlock_init symbolic mode cin cout s dr False) x =
     Inr (AddE (Conv2dE cin cout 1 s 0 1 x)
            (Conv2dE cout cout 3 1 1 1
              (let a = LeakyReLUE (1 / 10) (BatchNorm2dE cout mode (Conv2dE cin cout 3 s 1 1 x))
               in if 0 < dr then DropoutE a dr mode else a)))"
  by (simp add: BasicBlock_forward_def BasicBlock_init_def symbolic_def activate_def
      conv1_input_def call_shortcut_def Let_def)

theorem basic_block_conv1_gets_raw_input_witness:
  "(32::nat) \<noteq> 64 \<and>
   BasicBlock_forward symbolic (BasicBlock_init symbolic True 32 64 2 0 False) (Var ''x'') =
     Inr (AddE (Conv2dE 32 64 1 2 0 1 (Var ''x''))
            (Conv2dE 64 64 3 1 1 1
              (LeakyReLUE (1 / 10) (BatchNorm2dE 64 True (Conv2dE 32 64 3 2 1 1 (Var ''x''))))))"
  using basic_block_conv1_gets_raw_input [of 32 64 True 2 0 "Var ''x''"]
  by simp

lemma CDBasicBlock_no_attn:
  assumes "attn self = None"
  shows "\<exists>e. CDBasicBlock_forward T self x = Inl e"
  using assms
  by (auto simp add: CDBasicBlock_forward_def call_attn_def bindE_def
      split: sum.splits prod.splits)

text \<open>
  C8. For an attention variant other than 1, 2 and 3 the constructor of the gated
  block returns a block without a gating module, and the forward pass of that block
  fails on every input; on a batch that the layers before the gate accept (the block
  has input and output channels, the batch has the input channels of the block) it
  fails with an attribute error, at the call of the missing module.
\<close>

theorem unknown_attn_var:
  "av \<noteq> 1 \<and> av \<noteq> 2 \<and> av \<noteq> 3 \<longrightarrow>
     attn (CDBasicBlock_init T mode cin cout s dr abr av) = None \<and>
     (\<exists>e. CDBasicBlock_forward T (CDBasicBlock_init T mode cin cout s dr abr av) x = Inl e) \<and>
     (0 < cin \<and> 0 < cout \<and> 0 < s \<and> 0 < h \<and> 0 < w \<and> (\<not> mode \<or> 1 < b) \<and>
      0 \<le> dr \<and> dr \<le> 1 \<longrightarrow>
        CDBasicBlock_forward shapes (CDBasicBlock_init shapes mode cin cout s dr abr av)
          [b, cin, h, w] = Inl AttributeError)"
proof (intro impI conjI)
  assume av: "av \<noteq> 1 \<and> av \<noteq> 2 \<and> av \<noteq> 3"
  show n: "attn (CDBasicBlock_init T mode cin cout s dr abr av) = None" for T :: "'b torch"
    using av by (simp add: CDBasicBlock_init_def)
  show "\<exists>e. CDBasicBlock_forward T (CDBasicBlock_init T mode cin cout s dr abr av) x = Inl e"
    by (rule CDBasicBlock_no_attn [OF n])
  assume ok: "0 < cin \<and> 0 < cout \<and> 0 < s \<and> 0 < h \<and> 0 < w \<and> (\<not> mode \<or> 1 < b) \<and>
      0 \<le> dr \<and> dr \<le> 1"
  define blk where "blk = CDBasicBlock_init shapes mode cin cout s dr abr av"
  have f: "bn1 blk = batchnorm2d_shape cin mode" "relu1 blk = Inr"
    "conv1 blk = conv2d_shape cin cout 3 s 1 1" "bn2 blk = batchnorm2d_shape cout mode"
    "relu2 blk = Inr" "conv2 blk = conv2d_shape cout cout 3 1 1 1" "drop_rate blk = dr"
    "activate_before_residual blk = abr" "training blk = mode" "attn blk = None"
    using av by (simp_all add: blk_def CDBasicBlock_init_def)
  have act: "activate blk [b, cin, h, w] =
      Inr ([b, cin, h, w], if \<not> equalInOut blk \<and> abr then None else Some [b, cin, h, w])"
    using ok by (simp add: activate_def f)
  have ci: "conv1_input blk [b, cin, h, w]
              (if \<not> equalInOut blk \<and> abr then None else Some [b, cin, h, w])
      = Inr [b, cin, h, w]"
    by (simp add: conv1_input_def)
  have "CDBasicBlock_forward shapes blk [b, cin, h, w] = Inl AttributeError"
    using ok
    by (simp add: CDBasicBlock_forward_def act ci f call_attn_def cong: if_cong)
  then show "CDBasicBlock_forward shapes (CDBasicBlock_init shapes mode cin cout s dr abr av)
          [b, cin, h, w] = Inl AttributeError"
    by (simp add: blk_def)
qed

theorem unknown_attn_var_witness:
  "(0::int) \<noteq> 1 \<and> (0::int) \<noteq> 2 \<and> (0::int) \<noteq> 3 \<and>
   attn (CDBasicBlock_init shapes True 64 128 2 0 False 0) = None \<and>
   (\<exists>e. CDBasicBlock_forward shapes (CDBasicBlock_init shapes True 64 128 2 0 False 0)
           [4, 64, 16, 16] = Inl e) \<and>
   (0::nat) < 64 \<and> (0::nat) < 128 \<and> (0::nat) < 2 \<and> (0::nat) < 16 \<and> (1::nat) < 4 \<and>
   (0::rat) \<le> 1 \<and>
   CDBasicBlock_forward shapes (CDBasicBlock_init shapes True 64 128 2 0 False 0)
     [4, 64, 16, 16] = Inl AttributeError"
  using unknown_attn_var [of 0 shapes True 64 128 2 0 False "[4, 64, 16, 16]" 16 16 4]
  by simp

section \<open>Shapes through the stages\<close>

lemma Sequential_replicate: "f x = Inr x \<Longrightarrow> Sequential (replicate k f) x = Inr x"
  by (induction k) simp_all

lemma map_const_on: "(\<And>x. x \<in> set xs \<Longrightarrow> f x = c) \<Longrightarrow> map f xs = replicate (length xs) c"
  by (induction xs) simp_all

lemma and_or_simps [simp]:
  "0 < a \<Longrightarrow> and_or True a b = a"
  "and_or False a b = b"
  by (simp_all add: and_or_def)

lemma make_layer_split:
  assumes "0 < n" "0 < cin" "0 < s"
  shows "make_layer T mode n cin cout s dr abr =
           BasicBlock_init T mode cin cout s dr abr
             # replicate (nat n - 1) (BasicBlock_init T mode cout cout 1 dr abr)"
proof -
  have u: "[0..<nat n] = 0 # [1..<nat n]"
    using assms(1) by (simp add: upt_conv_Cons)
  have "map (\<lambda>i. BasicBlock_init T mode (and_or (i = 0) cin cout) cout
                 (and_or (i = 0) s (Suc 0)) dr abr) [Suc 0..<nat n]
           = replicate (length [Suc 0..<nat n]) (BasicBlock_init T mode cout cout (Suc 0) dr abr)"
    by (rule map_const_on) auto
  then have r: "map (\<lambda>i. BasicBlock_init T mode (and_or (i = 0) cin cout) cout
                 (and_or (i = 0) s (Suc 0)) dr abr) [Suc 0..<nat n]
           = replicate (nat n - Suc 0) (BasicBlock_init T mode cout cout (Suc 0) dr abr)"
    by simp
  show ?thesis
    using assms(2,3) by (simp add: make_layer_def u r del: upt_Suc)
qed

lemma make_cd_layer_split:
  assumes "0 < n" "0 < cin" "0 < s"
  shows "make_cd_layer T mode av n cin cout s dr abr =
           CDBasicBlock_init T mode cin cout s dr abr av
             # replicate (nat n - 1) (CDBasicBlock_init T mode cout cout 1 dr abr av)"
proof -
  have u: "[0..<nat n] = 0 # [1..<nat n]"
    using assms(1) by (simp add: upt_conv_Cons)
  have "map (\<lambda>i. CDBasicBlock_init T mode (and_or (i = 0) cin cout) cout
                 (and_or (i = 0) s (Suc 0)) dr abr av) [Suc 0..<nat n]
           = replicate (length [Suc 0..<nat n]) (CDBasicBlock_init T mode cout cout (Suc 0) dr abr av)"
    by (rule map_const_on) auto
  then have r: "map (\<lambda>i. CDBasicBlock_init T mode (and_or (i = 0) cin cout) cout
                 (and_or (i = 0) s (Suc 0)) dr abr av) [Suc 0..<nat n]
           = replicate (nat n - Suc 0) (CDBasicBlock_init T mode cout cout (Suc 0) dr abr av)"
    by simp
  show ?thesis
    using assms(2,3) by (simp add: make_cd_layer_def u r del: upt_Suc)
qed

lemma stage_shape:
  assumes "0 < n" "0 < cin" "0 < s" "0 < h" "0 < w" "\<not> mode \<or> 1 < b" "0 \<le> dr" "dr \<le> 1"
    "cin \<noteq> cout \<or> s = 1" "0 < cout"
  shows "Sequential (map (BasicBlock_forward shapes) (make_layer shapes mode n cin cout s dr abr))
           [b, cin, h, w] = Inr [b, cout, conv_out h 3 s 1, conv_out w 3 s 1]"
proof -
  have first: "BasicBlock_forward shapes (BasicBlock_init shapes mode cin cout s dr abr) [b, cin, h, w]
      = Inr [b, cout, conv_out h 3 s 1, conv_out w 3 s 1]"
    using assms by (intro BasicBlock_shape) simp_all
  have rest: "BasicBlock_forward shapes (BasicBlock_init shapes mode cout cout 1 dr abr)
        [b, cout, conv_out h 3 s 1, conv_out w 3 s 1]
      = Inr [b, cout, conv_out h 3 s 1, conv_out w 3 s 1]"
    using BasicBlock_shape [of 1 "conv_out h 3 s 1" "conv_out w 3 s 1" mode b dr cout cout abr]
      assms(6-8,10)
    by simp
  show ?thesis
    using first rest
    by (simp add: make_layer_split [OF assms(1-3)] Sequential_replicate)
qed

lemma block3_loop_replicate:
  assumes "CDBasicBlock_forward shapes blk x = Inr (x, g)"
    and "(if partial net < 1
          then slice_dim1_shape (squeeze_shape g)
                 (py_int (py_mul (64 * widen_factor net) (partial net)))
          else Inr (squeeze_shape g)) = Inr m"
  shows "block3_loop shapes net (replicate k blk) x acc = Inr (x, acc @ replicate k m)"
proof (induction k arbitrary: acc)
  case 0
  show ?case by simp
next
  case (Suc k)
  show ?case
  proof (cases "partial net < 1")
    case True
    with assms(2) have "slice_dim1_shape (squeeze_shape g)
                 (py_int (py_mul (64 * widen_factor net) (partial net))) = Inr m"
      by simp
    with True show ?thesis
      by (simp add: assms(1) Suc.IH replicate_app_Cons_same)
  next
    case False
    with assms(2) have "squeeze_shape g = m"
      by simp
    with False show ?thesis
      by (simp add: assms(1) Suc.IH replicate_app_Cons_same)
  qed
qed

lemma init_fields:
  assumes "CDWideResNet_init T mode nc depth wfactor dr av p = Inr net"
  shows "(depth - 4) mod 6 = 0"
    and "partial net = p"
    and "widen_factor net = wfactor"
    and "net_conv1 net = Conv2d T 3 16 3 1 1 1"
    and "block1 net = make_layer T mode ((depth - 4) div 6) 16 (16 * wfactor) 1 dr True"
    and "block2 net = make_layer T mode ((depth - 4) div 6) (16 * wfactor) (32 * wfactor) 2 dr False"
    and "block3 net = make_cd_layer T mode av ((depth - 4) div 6) (32 * wfactor) (64 * wfactor) 2 dr False"
    and "net_bn1 net = BatchNorm2d T (64 * wfactor) mode"
    and "relu net = LeakyReLU T (1 / 10)"
    and "fc net = Linear T (64 * wfactor) nc"
    and "channels net = 64 * wfactor"
  using assms
  by (auto simp add: CDWideResNet_init_def Let_def split: if_splits)

lemma block3_shape:
  assumes init: "CDWideResNet_init shapes mode nc depth wfactor dr av p = Inr net"
    and pos: "0 < wfactor" "10 \<le> depth" "0 < h" "0 < w"
    and ok: "\<not> mode \<or> 1 < b" "0 \<le> dr" "dr \<le> 1" "av = 1 \<or> av = 2 \<or> av = 3"
    and m: "(if p < 1
          then slice_dim1_shape (squeeze_shape [b, 64 * wfactor, 1, 1])
                 (py_int (py_mul (64 * wfactor) p))
          else Inr (squeeze_shape [b, 64 * wfactor, 1, 1])) = Inr m"
  shows "block3_loop shapes net (block3 net) [b, 32 * wfactor, h, w] []
           = Inr ([b, 64 * wfactor, conv_out h 3 2 1, conv_out w 3 2 1],
                  replicate (nat ((depth - 4) div 6)) m)"
proof -
  define n where "n = (depth - 4) div 6"
  define y where "y = [b, 64 * wfactor, conv_out h 3 2 1, conv_out w 3 2 1]"
  define blk0 where "blk0 = CDBasicBlock_init shapes mode (32 * wfactor) (64 * wfactor) 2 dr False av"
  define blk where "blk = CDBasicBlock_init shapes mode (64 * wfactor) (64 * wfactor) 1 dr False av"
  have n: "0 < n"
    using pos(2) by (simp add: n_def)
  have b3: "block3 net = blk0 # replicate (nat n - 1) blk"
    using init_fields(7) [OF init] make_cd_layer_split [of n "32 * wfactor" 2] n pos(1)
    by (simp add: n_def blk0_def blk_def)
  have first: "CDBasicBlock_forward shapes blk0 [b, 32 * wfactor, h, w] = Inr (y, [b, 64 * wfactor, 1, 1])"
    unfolding blk0_def y_def
    using pos ok by (intro CDBasicBlock_shape) simp_all
  have rest: "CDBasicBlock_forward shapes blk y = Inr (y, [b, 64 * wfactor, 1, 1])"
    using CDBasicBlock_shape [of 1 "conv_out h 3 2 1" "conv_out w 3 2 1" mode b dr
        "64 * wfactor" "64 * wfactor" av False] ok pos(1)
    by (simp add: blk_def y_def)
  have m': "(if partial net < 1
          then slice_dim1_shape (squeeze_shape [b, 64 * wfactor, 1, 1])
                 (py_int (py_mul (64 * widen_factor net) (partial net)))
          else Inr (squeeze_shape [b, 64 * wfactor, 1, 1])) = Inr m"
    using m by (simp add: init_fields(2,3) [OF init] cong: if_cong)
  have loop: "block3_loop shapes net (replicate (nat n - 1) blk) y [m]
                = Inr (y, [m] @ replicate (nat n - 1) m)"
    by (rule block3_loop_replicate [OF rest m'])
  have cnt: "m # replicate (nat n - 1) m = replicate (nat n) m"
    using n by (cases "nat n") simp_all
  have "block3_loop shapes net (blk0 # replicate (nat n - 1) blk) [b, 32 * wfactor, h, w] []
          = Inr (y, replicate (nat n) m)"
  proof (cases "partial net < 1")
    case True
    with m' have "slice_dim1_shape (squeeze_shape [b, 64 * wfactor, 1, 1])
                 (py_int (py_mul (64 * widen_factor net) (partial net))) = Inr m"
      by simp
    with True loop cnt show ?thesis
      by (simp add: first)
  next
    case False
    with m' have "squeeze_shape [b, 64 * wfactor, 1, 1] = m"
      by simp
    with False loop cnt show ?thesis
      by (simp add: first)
  qed
  then show ?thesis
    by (simp add: b3 y_def n_def)
qed

lemma cat_replicate:
  assumes "0 < n"
  shows "cat_shape (replicate n [b, c]) 1 = Inr [b, n * c]"
proof -
  obtain k where k: "n = Suc k"
    using assms by (cases n) simp_all
  show ?thesis
    by (simp add: k cat_shape_def list_all_iff sum_list_replicate)
qed

lemma head_shape:
  assumes "0 < c" "0 < h" "0 < w" "\<not> mode \<or> 1 < b"
  shows "bindE (batchnorm2d_shape c mode [b, c, h, w]) (\<lambda>out.
         bindE (Inr out) (\<lambda>out.
         bindE (adaptive_avg_pool2d_shape out 1) (\<lambda>out.
         bindE (view2_shape out c) (\<lambda>out.
         bindE (linear_shape c nc out) (\<lambda>logits. Inr (logits, gates)))))) = Inr ([b, nc], gates)"
  using assms
  by (simp add: adaptive_avg_pool2d_shape_def view2_shape_def linear_shape_def)

lemma forward_locals_shape:
  assumes init: "CDWideResNet_init shapes mode nc depth wfactor dr av p = Inr net"
    and pos: "0 < wfactor" "10 \<le> depth" "0 < h" "0 < w"
    and ok: "1 < b" "0 \<le> dr" "dr \<le> 1" "av = 1 \<or> av = 2 \<or> av = 3"
    and m: "(if p < 1
          then slice_dim1_shape [b, 64 * wfactor] (py_int (py_mul (64 * wfactor) p))
          else Inr [b, 64 * wfactor]) = Inr [b, c]"
  shows "forward_locals shapes net [b, 3, h, w] = Inr ([b, nc], [b, nat ((depth - 4) div 6) * c])"
proof -
  define n where "n = (depth - 4) div 6"
  have n: "0 < n"
    using pos(2) by (simp add: n_def)
  have mb: "\<not> mode \<or> 1 < b"
    using ok(1) by simp
  have sq: "squeeze_shape [b, 64 * wfactor, 1, 1] = [b, 64 * wfactor]"
    using ok(1) pos(1) by (simp add: squeeze_shape_def)
  have c0: "net_conv1 net [b, 3, h, w] = Inr [b, 16, h, w]"
    using pos by (simp add: init_fields(4) [OF init])
  have s1: "Sequential (map (BasicBlock_forward shapes) (block1 net)) [b, 16, h, w]
              = Inr [b, 16 * wfactor, h, w]"
    using stage_shape [of n 16 1 h w mode b dr "16 * wfactor" True] n pos mb ok
    by (simp add: init_fields(5) [OF init] n_def)
  have s2: "Sequential (map (BasicBlock_forward shapes) (block2 net)) [b, 16 * wfactor, h, w]
              = Inr [b, 32 * wfactor, conv_out h 3 2 1, conv_out w 3 2 1]"
    using stage_shape [of n "16 * wfactor" 2 h w mode b dr "32 * wfactor" False] n pos mb ok
    by (simp add: init_fields(6) [OF init] n_def)
  have s3: "block3_loop shapes net (block3 net) [b, 32 * wfactor, conv_out h 3 2 1, conv_out w 3 2 1] []
              = Inr ([b, 64 * wfactor, conv_out (conv_out h 3 2 1) 3 2 1,
                        conv_out (conv_out w 3 2 1) 3 2 1],
                     replicate (nat n) [b, c])"
    unfolding n_def
    using init pos(1,2) _ _ mb ok(2-4)
  proof (rule block3_shape)
    show "(if p < 1
         then slice_dim1_shape (squeeze_shape [b, 64 * wfactor, 1, 1])
                (py_int (py_mul (64 * wfactor) p))
         else Inr (squeeze_shape [b, 64 * wfactor, 1, 1])) = Inr [b, c]"
      using m by (simp only: sq)
  qed simp_all
  have ct: "cat_shape (replicate (nat n) [b, c]) 1 = Inr [b, nat n * c]"
    using n by (intro cat_replicate) simp
  have hd: "bindE (net_bn1 net [b, 64 * wfactor, conv_out (conv_out h 3 2 1) 3 2 1,
                        conv_out (conv_out w 3 2 1) 3 2 1]) (\<lambda>out.
         bindE (relu net out) (\<lambda>out.
         bindE (adaptive_avg_pool2d_shape out 1) (\<lambda>out.
         bindE (view2_shape out (channels net)) (\<lambda>out.
         bindE (fc net out) (\<lambda>logits. Inr (logits, [b, nat n * c]))))))
       = Inr ([b, nc], [b, nat n * c])"
    using head_shape [where c = "64 * wfactor" and h = "conv_out (conv_out h 3 2 1) 3 2 1"
        and w = "conv_out (conv_out w 3 2 1) 3 2 1" and mode = mode and b = b and nc = nc
        and gates = "[b, nat n * c]"] pos(1) mb
    by (simp add: init_fields(8-11) [OF init])
  show ?thesis
    unfolding forward_locals_def
    by (simp add: c0 s1 s2 s3 ct hd n_def [symmetric] del: One_nat_def)
qed

section \<open>Properties of the forward pass\<close>

lemma init_ok:
  "(depth - 4) mod 6 = 0 \<Longrightarrow> \<exists>net. CDWideResNet_init T mode nc depth wfactor dr av p = Inr net"
  by (simp add: CDWideResNet_init_def Let_def)

lemma block3_length:
  assumes "CDWideResNet_init T mode nc depth wfactor dr av p = Inr net"
  shows "length (block3 net) = nat ((depth - 4) div 6)"
  by (simp add: init_fields(7) [OF assms] make_cd_layer_def)

lemma py_mul_nonneg: "0 \<le> p \<Longrightarrow> 0 \<le> py_mul n p"
  by (simp add: py_mul_def float64_nonneg)

lemma slice_py_mul:
  assumes "0 \<le> p"
  shows "slice_dim1_shape [b, c] (py_int (py_mul n p)) = Inr [b, min (nat \<lfloor>py_mul n p\<rfloor>) c]"
  using py_mul_nonneg [OF assms, of n]
  by (simp add: slice_dim1_shape_def slice_stop_def py_int_def)

lemma floor_below:
  assumes "0 \<le> p" "p < 1"
  shows "nat \<lfloor>64 * of_nat wfactor * (p::rat)\<rfloor> \<le> 64 * wfactor"
proof -
  let ?q = "64 * of_nat wfactor * p :: rat"
  have "?q \<le> 64 * of_nat wfactor"
    using assms mult_left_le [of p "64 * of_nat wfactor"] by simp
  then have "\<lfloor>?q\<rfloor> \<le> int (64 * wfactor)"
    by (simp add: floor_le_iff)
  then show ?thesis
    by linarith
qed

lemma gate_slice:
  assumes "0 \<le> p"
  shows "(if p < 1
          then slice_dim1_shape [b, 64 * wfactor] (py_int (py_mul (64 * wfactor) p))
          else Inr [b, 64 * wfactor])
         = Inr [b, if 1 \<le> p then 64 * wfactor
                   else min (nat \<lfloor>py_mul (64 * wfactor) p\<rfloor>) (64 * wfactor)]"
  using assms by (simp add: slice_py_mul not_le)

lemma CDWRN28_locals_example:
  "CDWRN28_locals shapes mode 10 2 [4, 3, 32, 32] = Inr ([4, 10], [4, 512])"
proof -
  obtain net where init: "CDWideResNet_init shapes mode 10 28 2 0 1 1 = Inr net"
    using init_ok [of 28 shapes mode 10 2 0 1 1] by auto
  have "forward_locals shapes net [4, 3, 32, 32] = Inr ([4, 10], [4, nat ((28 - 4) div 6) * 128])"
    by (rule forward_locals_shape [OF init]) simp_all
  then show ?thesis
    by (simp add: CDWRN28_locals_def CDWRN28_def init)
qed

lemma py_mul_example: "py_mul 320 (5404319552844595 / 18014398509481984) = 96"
  using float64_example_1 by (simp add: py_mul_def)

lemma CDWideResNet_locals_example:
  "CDWideResNet_locals shapes True 10 28 5 0 1 (5404319552844595 / 18014398509481984)
     [4, 3, 32, 32] = Inr ([4, 10], [4, 4 * 96])"
proof -
  let ?p = "5404319552844595 / 18014398509481984 :: rat"
  obtain net where init: "CDWideResNet_init shapes True 10 28 5 0 1 ?p = Inr net"
    using init_ok [of 28 shapes True 10 5 0 1 ?p] by auto
  have m: "(if ?p < 1
          then slice_dim1_shape [4, 64 * 5] (py_int (py_mul (64 * 5) ?p))
          else Inr [4, 64 * 5]) = Inr [4, 96]"
    by (simp add: py_mul_example slice_dim1_shape_def slice_stop_def py_int_def)
  have "forward_locals shapes net [4, 3, 32, 32] = Inr ([4, 10], [4, nat ((28 - 4) div 6) * 96])"
    by (rule forward_locals_shape [OF init _ _ _ _ _ _ _ _ m]) simp_all
  then show ?thesis
    by (simp add: CDWideResNet_locals_def init)
qed

text \<open>
  C2. For a network that the constructor returns (at least one block per stage, a
  positive widening factor, a dropout rate between 0 and 1, an attention variant
  among 1, 2 and 3, a partial fraction that is not negative) and a batch of at least
  two images, the concatenated gate tensor that the forward pass computes has width
  the number of blocks of stage 3 times the width of a collected gate, and the number
  of blocks is \<open>(depth - 4) div 6\<close>. The width of a collected gate is
  \<open>64 * widen_factor\<close> when the partial fraction is at least 1; otherwise it is the
  integer part of the product \<open>64 * widen_factor * partial\<close> as the source computes
  it, in double precision, and at most \<open>64 * widen_factor\<close>. When that product is
  exact, this is the floor of \<open>64 * widen_factor * partial\<close>. For
  \<^verbatim>\<open>CDWRN28(10, 2)\<close> on a batch of shape \<open>(4, 3, 32, 32)\<close> the logits have shape
  \<open>(4, 10)\<close> and the gate tensor has shape \<open>(4, 4 * 128)\<close>, with 4 blocks and
  \<open>128 = 64 * 2\<close>.
\<close>

theorem gate_width:
  "CDWideResNet_init shapes mode nc depth wfactor dr av p = Inr net \<and>
   0 < wfactor \<and> 10 \<le> depth \<and> 1 < b \<and> 0 < h \<and> 0 < w \<and> 0 \<le> dr \<and> dr \<le> 1 \<and>
   (av = 1 \<or> av = 2 \<or> av = 3) \<and> 0 \<le> p \<longrightarrow>
     forward_locals shapes net [b, 3, h, w] =
       Inr ([b, nc],
            [b, length (block3 net) *
                  (if 1 \<le> p then 64 * wfactor
                   else min (nat \<lfloor>py_mul (64 * wfactor) p\<rfloor>) (64 * wfactor))]) \<and>
     length (block3 net) = nat ((depth - 4) div 6) \<and>
     (p < 1 \<and> py_mul (64 * wfactor) p = 64 * of_nat wfactor * p \<longrightarrow>
        forward_locals shapes net [b, 3, h, w] =
          Inr ([b, nc], [b, length (block3 net) * nat \<lfloor>64 * of_nat wfactor * p\<rfloor>])) \<and>
     CDWRN28_locals shapes mode 10 2 [4, 3, 32, 32] = Inr ([4, 10], [4, 4 * 128])"
proof (intro impI, elim conjE)
  assume init: "CDWideResNet_init shapes mode nc depth wfactor dr av p = Inr net"
    and pos: "0 < wfactor" "10 \<le> depth" "0 < h" "0 < w"
    and ok: "1 < b" "0 \<le> dr" "dr \<le> 1" "av = 1 \<or> av = 2 \<or> av = 3"
    and p: "0 \<le> p"
  let ?c = "if 1 \<le> p then 64 * wfactor
            else min (nat \<lfloor>py_mul (64 * wfactor) p\<rfloor>) (64 * wfactor)"
  have len: "length (block3 net) = nat ((depth - 4) div 6)"
    by (rule block3_length [OF init])
  have "forward_locals shapes net [b, 3, h, w] = Inr ([b, nc], [b, nat ((depth - 4) div 6) * ?c])"
    by (rule forward_locals_shape [OF init pos ok gate_slice [OF p]])
  then have main: "forward_locals shapes net [b, 3, h, w]
      = Inr ([b, nc], [b, length (block3 net) * ?c])"
    by (simp only: len)
  have exact: "forward_locals shapes net [b, 3, h, w]
      = Inr ([b, nc], [b, length (block3 net) * nat \<lfloor>64 * of_nat wfactor * p\<rfloor>])"
    if "p < 1 \<and> py_mul (64 * wfactor) p = 64 * of_nat wfactor * p"
  proof -
    have "?c = nat \<lfloor>64 * of_nat wfactor * p\<rfloor>"
      using that floor_below [OF p, of wfactor] by (simp add: not_le min_def)
    with main show ?thesis
      by simp
  qed
  show "forward_locals shapes net [b, 3, h, w] = Inr ([b, nc], [b, length (block3 net) * ?c]) \<and>
     length (block3 net) = nat ((depth - 4) div 6) \<and>
     (p < 1 \<and> py_mul (64 * wfactor) p = 64 * of_nat wfactor * p \<longrightarrow>
        forward_locals shapes net [b, 3, h, w] =
          Inr ([b, nc], [b, length (block3 net) * nat \<lfloor>64 * of_nat wfactor * p\<rfloor>])) \<and>
     CDWRN28_locals shapes mode 10 2 [4, 3, 32, 32] = Inr ([4, 10], [4, 4 * 128])"
    using main len exact by (simp add: CDWRN28_locals_example)
qed

lemma py_mul_half: "py_mul 128 (1 / 2) = 64"
  using float64_example_2 by (simp add: py_mul_def)

theorem gate_width_witness:
  "\<exists>net. CDWideResNet_init shapes True 10 28 2 0 1 (1 / 2) = Inr net \<and>
     py_mul (64 * 2) (1 / 2) = 64 * of_nat 2 * (1 / 2) \<and>
     forward_locals shapes net [4, 3, 32, 32] = Inr ([4, 10], [4, length (block3 net) * 64]) \<and>
     length (block3 net) = 4 \<and>
     CDWRN28_locals shapes True 10 2 [4, 3, 32, 32] = Inr ([4, 10], [4, 4 * 128])"
proof -
  obtain net where init: "CDWideResNet_init shapes True 10 28 2 0 1 (1 / 2) = Inr net"
    using init_ok [of 28 shapes True 10 2 0 1 "1 / 2"] by auto
  show ?thesis
    using gate_width [of True 10 28 2 0 1 "1 / 2" net 4 32 32] init py_mul_half
    by (intro exI [of _ net]) simp
qed

text \<open>
  The claim C2 as the specification words it fails on its own example: the gate tensor
  of \<^verbatim>\<open>CDWRN28(10, 2)\<close> on a batch of shape \<open>(4, 3, 32, 32)\<close> has width
  \<open>4 * 128\<close>, not \<open>4 * 256\<close>. Its formula fails for the widening factor 5 and the
  partial fraction \<^verbatim>\<open>0.3\<close>, the double \<open>5404319552844595 / 2 ^ 54\<close>: the product
  \<^verbatim>\<open>64*5*0.3\<close> is the double 96, so the gate tensor has width \<open>4 * 96\<close>, where the
  floor of the exact product is 95.
\<close>

theorem gate_width_counterexample:
  "CDWRN28_locals shapes True 10 2 [4, 3, 32, 32] = Inr ([4, 10], [4, 4 * 128]) \<and>
   CDWRN28_locals shapes True 10 2 [4, 3, 32, 32] \<noteq> Inr ([4, 10], [4, 4 * 256]) \<and>
   CDWideResNet_locals shapes True 10 28 5 0 1 (5404319552844595 / 18014398509481984)
     [4, 3, 32, 32] = Inr ([4, 10], [4, 4 * 96]) \<and>
   \<lfloor>64 * 5 * (5404319552844595 / 18014398509481984 :: rat)\<rfloor> = 95"
proof -
  have "\<lfloor>64 * 5 * (5404319552844595 / 18014398509481984 :: rat)\<rfloor> = 95"
    by (rule floor_unique) simp_all
  then show ?thesis
    by (simp only: CDWRN28_locals_example CDWideResNet_locals_example) simp
qed

lemma forward_of_locals:
  "forward_locals T net x = Inr (logits, gates) \<Longrightarrow>
   CDWideResNet_forward T net x = Inr (Tensor logits)"
  by (simp add: CDWideResNet_forward_def)

text \<open>
  C1. The forward pass of the network returns the logits alone: whenever its body
  reaches the last statement, with the local variables \<^verbatim>\<open>logits\<close> and \<^verbatim>\<open>mask\<close>,
  the value returned is the tensor \<^verbatim>\<open>logits\<close> and the concatenated gate tensor is
  dropped. For a network that the constructor returns (at least one block per stage,
  a positive widening factor, a dropout rate between 0 and 1, an attention variant
  among 1, 2 and 3, a partial fraction that is not negative) and a batch of shape
  \<open>(B, 3, H, W)\<close> with \<open>B\<close> at least 2, the body does reach it: the value returned has
  shape \<open>(B, num_classes)\<close>, and the gate tensor computed on the way has shape
  \<open>(B, G)\<close>.
\<close>

theorem forward_returns_logits:
  "(forward_locals T self x = Inr (logits, gates) \<longrightarrow>
      CDWideResNet_forward T self x = Inr (Tensor logits)) \<and>
   (CDWideResNet_init shapes mode nc depth wfactor dr av p = Inr net \<and>
    0 < wfactor \<and> 10 \<le> depth \<and> 1 < b \<and> 0 < h \<and> 0 < w \<and> 0 \<le> dr \<and> dr \<le> 1 \<and>
    (av = 1 \<or> av = 2 \<or> av = 3) \<and> 0 \<le> p \<longrightarrow>
      CDWideResNet_forward shapes net [b, 3, h, w] = Inr (Tensor [b, nc]) \<and>
      (\<exists>G. forward_locals shapes net [b, 3, h, w] = Inr ([b, nc], [b, G])))"
proof (intro conjI impI, goal_cases)
  case 1
  then show ?case by (rule forward_of_locals)
next
  case 2
  then have init: "CDWideResNet_init shapes mode nc depth wfactor dr av p = Inr net"
    and pos: "0 < wfactor" "10 \<le> depth" "0 < h" "0 < w"
    and ok: "1 < b" "0 \<le> dr" "dr \<le> 1" "av = 1 \<or> av = 2 \<or> av = 3"
    and p: "0 \<le> p"
    by simp_all
  let ?c = "if 1 \<le> p then 64 * wfactor
            else min (nat \<lfloor>py_mul (64 * wfactor) p\<rfloor>) (64 * wfactor)"
  have m: "(if p < 1
          then slice_dim1_shape [b, 64 * wfactor] (py_int (py_mul (64 * wfactor) p))
          else Inr [b, 64 * wfactor]) = Inr [b, ?c]"
    by (rule gate_slice [OF p])
  have l: "forward_locals shapes net [b, 3, h, w] = Inr ([b, nc], [b, nat ((depth - 4) div 6) * ?c])"
    by (rule forward_locals_shape [OF init pos ok m])
  then show ?case
    by (simp add: forward_of_locals)
next
  case 3
  then have init: "CDWideResNet_init shapes mode nc depth wfactor dr av p = Inr net"
    and pos: "0 < wfactor" "10 \<le> depth" "0 < h" "0 < w"
    and ok: "1 < b" "0 \<le> dr" "dr \<le> 1" "av = 1 \<or> av = 2 \<or> av = 3"
    and p: "0 \<le> p"
    by simp_all
  let ?c = "if 1 \<le> p then 64 * wfactor
            else min (nat \<lfloor>py_mul (64 * wfactor) p\<rfloor>) (64 * wfactor)"
  have m: "(if p < 1
          then slice_dim1_shape [b, 64 * wfactor] (py_int (py_mul (64 * wfactor) p))
          else Inr [b, 64 * wfactor]) = Inr [b, ?c]"
    by (rule gate_slice [OF p])
  have l: "forward_locals shapes net [b, 3, h, w] = Inr ([b, nc], [b, nat ((depth - 4) div 6) * ?c])"
    by (rule forward_locals_shape [OF init pos ok m])
  then show ?case
    by blast
qed

theorem forward_returns_logits_witness:
  "\<exists>net. CDWideResNet_init shapes True 10 28 2 0 1 1 = Inr net \<and>
     forward_locals shapes net [4, 3, 32, 32] = Inr ([4, 10], [4, 512]) \<and>
     CDWideResNet_forward shapes net [4, 3, 32, 32] = Inr (Tensor [4, 10])"
proof -
  obtain net where init: "CDWideResNet_init shapes True 10 28 2 0 1 1 = Inr net"
    using init_ok [of 28 shapes True 10 2 0 1 1] by auto
  have l: "forward_locals shapes net [4, 3, 32, 32] = Inr ([4, 10], [4, 512])"
    using CDWRN28_locals_example [of True] by (simp add: CDWRN28_locals_def CDWRN28_def init)
  show ?thesis
    using forward_returns_logits [of shapes net "[4, 3, 32, 32]" "[4, 10]" "[4, 512]"
        True 10 28 2 0 1 1 net 4 32 32] init l
    by (intro exI [of _ net]) simp
qed

text \<open>
  The claim C1 as the specification words it fails on \<^verbatim>\<open>CDWRN28(10, 2)\<close> and a batch
  of shape \<open>(4, 3, 32, 32)\<close>: the call returns one tensor of shape \<open>(4, 10)\<close>, not
  the pair of the logits and the gate tensor.
\<close>

theorem forward_pair_counterexample:
  "CDWRN28_forward shapes True 10 2 [4, 3, 32, 32] = Inr (Tensor [4, 10]) \<and>
   CDWRN28_forward shapes True 10 2 [4, 3, 32, 32]
     \<noteq> Inr (Tuple [Tensor [4, 10], Tensor [4, 512]])"
proof -
  obtain net where init: "CDWideResNet_init shapes True 10 28 2 0 1 1 = Inr net"
    using init_ok [of 28 shapes True 10 2 0 1 1] by auto
  have "forward_locals shapes net [4, 3, 32, 32] = Inr ([4, 10], [4, 512])"
    using CDWRN28_locals_example [of True] by (simp add: CDWRN28_locals_def CDWRN28_def init)
  then show ?thesis
    by (simp add: CDWRN28_forward_def CDWRN28_def init forward_of_locals)
qed

lemma CDBasicBlock_trace:
  assumes "attn self = Some g"
    and "activate self x0 = Inr (x, o0)"
    and "conv1_input self x o0 = Inr i"
    and "conv1 self i = Inr t1"
    and "bn2 self t1 = Inr t2"
    and "relu2 self t2 = Inr t3"
    and "(if 0 < drop_rate self then dropout T t3 (drop_rate self) (training self) else Inr t3)
           = Inr t4"
    and "conv2 self t4 = Inr out"
    and "g out = Inr masks"
    and "torch_mul T out masks = Inr gated"
    and "(if equalInOut self then Inr x else call_shortcut (convShortcut self) x) = Inr sc"
    and "torch_add T sc gated = Inr res"
  shows "CDBasicBlock_forward T self x0 = Inr (res, masks)"
  using assms
  by (simp add: CDBasicBlock_forward_def call_attn_def)

text \<open>
  C4. On the first block of stage 3 of \<^verbatim>\<open>CDWRN28(10, 2)\<close> and a batch of shape
  \<open>(4, 64, 16, 16)\<close> the gated block returns a feature map of shape
  \<open>(4, 128, 8, 8)\<close> and a gate of shape \<open>(4, 128, 1, 1)\<close>: the gate is not squeezed
  to \<open>(4, 128)\<close>, the shape \<open>(N, C)\<close> that the docstring of the method gives. As
  expressions, the pair returned is the sum of the shortcut and of the product of
  \<open>out\<close>, the result of the second convolution, with the gate, and the gate itself,
  which is what the gating module returns on \<open>out\<close>, with no squeeze applied.
\<close>

theorem gated_block_gate_unsqueezed:
  "CDBasicBlock_forward shapes (CDBasicBlock_init shapes True 64 128 2 0 False 1) [4, 64, 16, 16]
     = Inr ([4, 128, 8, 8], [4, 128, 1, 1]) \<and>
   CDBasicBlock_forward shapes (CDBasicBlock_init shapes True 64 128 2 0 False 1) [4, 64, 16, 16]
     \<noteq> Inr ([4, 128, 8, 8], [4, 128]) \<and>
   CDBasicBlock_forward symbolic (CDBasicBlock_init symbolic True 64 128 2 0 False 3) (Var ''x'')
     = Inr (AddE (Conv2dE 64 128 1 2 0 1 (Var ''x''))
              (MulE
                (Conv2dE 128 128 3 1 1 1
                  (LeakyReLUE (1 / 10) (BatchNorm2dE 128 True (Conv2dE 64 128 3 2 1 1 (Var ''x'')))))
                (SigmoidE (Conv2dE 128 128 1 1 0 1 (PoolE
                  (Conv2dE 128 128 3 1 1 1
                    (LeakyReLUE (1 / 10)
                      (BatchNorm2dE 128 True (Conv2dE 64 128 3 2 1 1 (Var ''x''))))) 1)))),
            SigmoidE (Conv2dE 128 128 1 1 0 1 (PoolE
              (Conv2dE 128 128 3 1 1 1
                (LeakyReLUE (1 / 10)
                  (BatchNorm2dE 128 True (Conv2dE 64 128 3 2 1 1 (Var ''x''))))) 1)))"
proof -
  have "CDBasicBlock_forward shapes (CDBasicBlock_init shapes True 64 128 2 0 False 1)
          [4, 64, 16, 16]
        = Inr ([4, 128, conv_out 16 3 2 1, conv_out 16 3 2 1], [4, 128, 1, 1])"
    by (rule CDBasicBlock_shape) simp_all
  then have "CDBasicBlock_forward shapes (CDBasicBlock_init shapes True 64 128 2 0 False 1)
          [4, 64, 16, 16] = Inr ([4, 128, 8, 8], [4, 128, 1, 1])"
    by (simp add: conv_out_def)
  moreover have "CDBasicBlock_forward symbolic (CDBasicBlock_init symbolic True 64 128 2 0 False 3)
      (Var ''x'')
     = Inr (AddE (Conv2dE 64 128 1 2 0 1 (Var ''x''))
              (MulE
                (Conv2dE 128 128 3 1 1 1
                  (LeakyReLUE (1 / 10) (BatchNorm2dE 128 True (Conv2dE 64 128 3 2 1 1 (Var ''x'')))))
                (SigmoidE (Conv2dE 128 128 1 1 0 1 (PoolE
                  (Conv2dE 128 128 3 1 1 1
                    (LeakyReLUE (1 / 10)
                      (BatchNorm2dE 128 True (Conv2dE 64 128 3 2 1 1 (Var ''x''))))) 1)))),
            SigmoidE (Conv2dE 128 128 1 1 0 1 (PoolE
              (Conv2dE 128 128 3 1 1 1
                (LeakyReLUE (1 / 10)
                  (BatchNorm2dE 128 True (Conv2dE 64 128 3 2 1 1 (Var ''x''))))) 1)))"
    by (simp add: CDBasicBlock_forward_def CDBasicBlock_init_def symbolic_def activate_def
        conv1_input_def call_shortcut_def call_attn_def AdaptiveAvgPool2d_def)
  ultimately show ?thesis
    by simp
qed

text \<open>
  C5. The squeeze of the gate in the loop over stage 3 removes every dimension of
  size 1: a gate of shape \<open>(B, C, 1, 1)\<close> with \<open>B\<close> and \<open>C\<close> at least 2 becomes
  \<open>(B, C)\<close>, and with \<open>B = 1\<close> it becomes \<open>(C)\<close>, the batch dimension being
  removed too. So in the forward pass of a network that the constructor returns (with
  the partial fraction at least 1) the gates collected by the loop have shape
  \<open>(B, 64 * widen_factor)\<close> for a batch of at least two samples, and shape
  \<open>(64 * widen_factor)\<close> for a single sample (in evaluation mode).
\<close>

theorem gate_squeeze:
  "1 \<notin> set (squeeze_shape x) \<and>
   (2 \<le> b \<and> 2 \<le> c \<longrightarrow> squeeze_shape [b, c, 1, 1] = [b, c]) \<and>
   (2 \<le> c \<longrightarrow> squeeze_shape [1, c, 1, 1] = [c]) \<and>
   (CDWideResNet_init shapes mode nc depth wfactor dr av p = Inr net \<and>
    0 < wfactor \<and> 10 \<le> depth \<and> 0 < h \<and> 0 < w \<and> 0 \<le> dr \<and> dr \<le> 1 \<and>
    (av = 1 \<or> av = 2 \<or> av = 3) \<and> 1 \<le> p \<longrightarrow>
      (2 \<le> b \<longrightarrow>
         block3_loop shapes net (block3 net) [b, 32 * wfactor, h, w] []
           = Inr ([b, 64 * wfactor, conv_out h 3 2 1, conv_out w 3 2 1],
                  replicate (length (block3 net)) [b, 64 * wfactor])) \<and>
      (\<not> mode \<longrightarrow>
         block3_loop shapes net (block3 net) [1, 32 * wfactor, h, w] []
           = Inr ([1, 64 * wfactor, conv_out h 3 2 1, conv_out w 3 2 1],
                  replicate (length (block3 net)) [64 * wfactor])))"
proof (intro conjI impI, goal_cases)
  case 1
  show ?case by (simp add: squeeze_shape_def)
next
  case 2
  then show ?case by (simp add: squeeze_shape_def)
next
  case 3
  then show ?case by (simp add: squeeze_shape_def)
next
  case 4
  then have init: "CDWideResNet_init shapes mode nc depth wfactor dr av p = Inr net"
    and pos: "0 < wfactor" "10 \<le> depth" "0 < h" "0 < w"
    and ok: "0 \<le> dr" "dr \<le> 1" "av = 1 \<or> av = 2 \<or> av = 3"
    and p: "1 \<le> p" and b: "2 \<le> b"
    by simp_all
  have mb: "\<not> mode \<or> 1 < b"
    using b by simp
  have m: "(if p < 1
          then slice_dim1_shape (squeeze_shape [b, 64 * wfactor, 1, 1])
                 (py_int (py_mul (64 * wfactor) p))
          else Inr (squeeze_shape [b, 64 * wfactor, 1, 1])) = Inr [b, 64 * wfactor]"
    using p b pos(1) by (simp add: squeeze_shape_def)
  show ?case
    unfolding block3_length [OF init]
    by (rule block3_shape [OF init pos mb ok m])
next
  case 5
  then have init: "CDWideResNet_init shapes mode nc depth wfactor dr av p = Inr net"
    and pos: "0 < wfactor" "10 \<le> depth" "0 < h" "0 < w"
    and ok: "0 \<le> dr" "dr \<le> 1" "av = 1 \<or> av = 2 \<or> av = 3"
    and p: "1 \<le> p" and mode: "\<not> mode"
    by simp_all
  have mb: "\<not> mode \<or> 1 < (1::nat)"
    using mode by simp
  have m: "(if p < 1
          then slice_dim1_shape (squeeze_shape [1, 64 * wfactor, 1, 1])
                 (py_int (py_mul (64 * wfactor) p))
          else Inr (squeeze_shape [1, 64 * wfactor, 1, 1])) = Inr [64 * wfactor]"
    using p pos(1) by (simp add: squeeze_shape_def)
  show ?case
    unfolding block3_length [OF init]
    by (rule block3_shape [OF init pos mb ok m])
qed

theorem gate_squeeze_witness:
  "\<exists>net. CDWideResNet_init shapes False 10 28 2 0 1 1 = Inr net \<and>
     length (block3 net) = 4 \<and>
     block3_loop shapes net (block3 net) [4, 64, 16, 16] []
       = Inr ([4, 128, 8, 8], [[4, 128], [4, 128], [4, 128], [4, 128]]) \<and>
     block3_loop shapes net (block3 net) [1, 64, 16, 16] []
       = Inr ([1, 128, 8, 8], [[128], [128], [128], [128]]) \<and>
     squeeze_shape [4, 128, 1, 1] = [4, 128] \<and>
     squeeze_shape [1, 128, 1, 1] = [128]"
proof -
  obtain net where init: "CDWideResNet_init shapes False 10 28 2 0 1 1 = Inr net"
    using init_ok [of 28 shapes False 10 2 0 1 1] by auto
  have len: "length (block3 net) = 4"
    using block3_length [OF init] by simp
  have r: "replicate 4 a = [a, a, a, a]" for a :: "nat list"
    by (simp add: numeral_eq_Suc)
  show ?thesis
    using gate_squeeze [of "[4, 128, 1, 1]" 4 128 False 10 28 2 0 1 1 net 16 16] init len
    by (intro exI [of _ net]) (simp add: conv_out_def r)
qed

text \<open>
  With gates of one dimension the concatenation along dimension 1 is out of range: in
  evaluation mode the forward pass raises on every batch of a single sample.
\<close>

lemma cat_replicate_flat:
  assumes "0 < n"
  shows "cat_shape (replicate n [c]) 1 = Inl IndexError"
proof -
  obtain k where k: "n = Suc k"
    using assms by (cases n) simp_all
  show ?thesis
    by (simp add: k cat_shape_def)
qed

lemma single_sample_fails:
  assumes init: "CDWideResNet_init shapes False nc depth wfactor dr av p = Inr net"
    and pos: "0 < wfactor" "10 \<le> depth" "0 < h" "0 < w"
    and ok: "0 \<le> dr" "dr \<le> 1" "av = 1 \<or> av = 2 \<or> av = 3"
    and p: "1 \<le> p"
  shows "forward_locals shapes net [1, 3, h, w] = Inl IndexError"
proof -
  define n where "n = (depth - 4) div 6"
  have n: "0 < n"
    using pos(2) by (simp add: n_def)
  have mb: "\<not> False \<or> 1 < (1::nat)"
    by simp
  have c0: "net_conv1 net [1, 3, h, w] = Inr [1, 16, h, w]"
    using pos by (simp add: init_fields(4) [OF init])
  have s1: "Sequential (map (BasicBlock_forward shapes) (block1 net)) [1, 16, h, w]
              = Inr [1, 16 * wfactor, h, w]"
    using stage_shape [of n 16 1 h w False 1 dr "16 * wfactor" True] n pos ok
    by (simp add: init_fields(5) [OF init] n_def)
  have s2: "Sequential (map (BasicBlock_forward shapes) (block2 net)) [1, 16 * wfactor, h, w]
              = Inr [1, 32 * wfactor, conv_out h 3 2 1, conv_out w 3 2 1]"
    using stage_shape [of n "16 * wfactor" 2 h w False 1 dr "32 * wfactor" False] n pos ok
    by (simp add: init_fields(6) [OF init] n_def)
  have m: "(if p < 1
          then slice_dim1_shape (squeeze_shape [1, 64 * wfactor, 1, 1])
                 (py_int (py_mul (64 * wfactor) p))
          else Inr (squeeze_shape [1, 64 * wfactor, 1, 1])) = Inr [64 * wfactor]"
    using p pos(1) by (simp add: squeeze_shape_def)
  have s3: "block3_loop shapes net (block3 net) [1, 32 * wfactor, conv_out h 3 2 1, conv_out w 3 2 1] []
              = Inr ([1, 64 * wfactor, conv_out (conv_out h 3 2 1) 3 2 1,
                        conv_out (conv_out w 3 2 1) 3 2 1],
                     replicate (nat n) [64 * wfactor])"
    unfolding n_def
    by (rule block3_shape [OF init pos(1,2) _ _ mb ok m]) simp_all
  have ct: "cat_shape (replicate (nat n) [64 * wfactor]) 1 = Inl IndexError"
    using n by (intro cat_replicate_flat) simp
  show ?thesis
    unfolding forward_locals_def
    by (simp add: c0 s1 s2 s3 ct n_def [symmetric] del: One_nat_def)
qed

section \<open>The values of the gate\<close>

lemma Sequential_last:
  "Sequential (ms @ [f]) x = Inr y \<Longrightarrow> \<exists>z. f z = Inr y"
proof (induction ms arbitrary: x)
  case Nil
  then show ?case
    by (cases "f x") auto
next
  case (Cons m ms)
  then show ?case
    by (cases "m x") auto
qed

lemma attn_ends_with_Sigmoid:
  assumes "av = 1 \<or> av = 2 \<or> av = 3"
    and "call_attn (attn (CDBasicBlock_init T mode cin cout s dr abr av)) x = Inr masks"
  shows "\<exists>z. Sigmoid T z = Inr masks"
proof -
  consider "av = 1" | "av = 2" | "av = 3"
    using assms(1) by blast
  then show ?thesis
  proof cases
    case 1
    with assms(2) have "Sequential
        ([AdaptiveAvgPool2d T 1, Conv2d T cout (cout div 16) 1 1 0 1, ReLU T,
          Conv2d T (cout div 16) cout 1 1 0 1] @ [Sigmoid T]) x = Inr masks"
      by (simp add: CDBasicBlock_init_def call_attn_def)
    then show ?thesis
      by (rule Sequential_last)
  next
    case 2
    with assms(2) have "Sequential
        ([AdaptiveAvgPool2d T 1, Conv2d T cout cout 1 1 0 cout] @ [Sigmoid T]) x = Inr masks"
      by (simp add: CDBasicBlock_init_def call_attn_def)
    then show ?thesis
      by (rule Sequential_last)
  next
    case 3
    with assms(2) have "Sequential
        ([AdaptiveAvgPool2d T 1, Conv2d T cout cout 1 1 0 1] @ [Sigmoid T]) x = Inr masks"
      by (simp add: CDBasicBlock_init_def call_attn_def)
    then show ?thesis
      by (rule Sequential_last)
  qed
qed

lemma forward_calls_attn:
  assumes "CDBasicBlock_forward T self x = Inr (out, masks)"
  shows "\<exists>v. call_attn (attn self) v = Inr masks"
  using assms
  by (auto simp add: CDBasicBlock_forward_def bindE_def split: sum.splits prod.splits)

lemma block_gate_is_sigmoid:
  assumes "av = 1 \<or> av = 2 \<or> av = 3"
    and "CDBasicBlock_forward T (CDBasicBlock_init T mode cin cout s dr abr av) x = Inr (out, masks)"
  shows "\<exists>z. Sigmoid T z = Inr masks"
proof -
  obtain v where "call_attn (attn (CDBasicBlock_init T mode cin cout s dr abr av)) v = Inr masks"
    using forward_calls_attn [OF assms(2)] by blast
  then show ?thesis
    by (rule attn_ends_with_Sigmoid [OF assms(1)])
qed

lemma round_half_even_le:
  assumes "x \<le> of_int n"
  shows "round_half_even x \<le> n"
proof (cases "x = of_int n")
  case True
  then show ?thesis by simp
next
  case False
  with assms have "x < of_int n"
    by simp
  then have "\<lfloor>x\<rfloor> < n"
    by (simp add: floor_less_iff)
  then show ?thesis
    by (simp add: round_half_even_def Let_def)
qed

lemma float32_unit_interval:
  assumes "0 < y" "y < 1"
  shows "0 \<le> float32 y \<and> float32 y \<le> 1"
proof -
  define e where "e = \<lfloor>log 2 y\<rfloor> - 23"
  have "log 2 y < 0"
    using assms by simp
  then have "\<lfloor>log 2 y\<rfloor> < 0"
    by (subst floor_less_iff) simp
  then have e: "e \<le> - 24"
    unfolding e_def by linarith
  define N where "N = (2::int) ^ nat (- e)"
  have p: "(2::real) powi e = 1 / of_int N"
    using e by (simp add: N_def power_int_def field_simps)
  have N: "0 < N"
    by (simp add: N_def)
  have f: "float32 y = of_int (round_half_even (y / 2 powi e)) * 2 powi e"
    using assms by (simp add: float32_def round_sig_def Let_def e_def)
  have "y / 2 powi e = y * of_int N"
    by (simp add: p)
  also have "\<dots> \<le> of_int N"
    using assms N by simp
  finally have "round_half_even (y / 2 powi e) \<le> N"
    by (rule round_half_even_le)
  then have "real_of_int (round_half_even (y / 2 powi e)) \<le> of_int N"
    by simp
  then have up: "float32 y \<le> 1"
    using N by (simp add: f p field_simps)
  have "0 \<le> y / 2 powi e"
    using assms by simp
  then have "0 \<le> round_half_even (y / 2 powi e)"
    by (rule round_half_even_nonneg)
  then have "0 \<le> float32 y"
    by (simp add: f)
  with up show ?thesis
    by simp
qed

text \<open>
  C10. For each of the three attention variants, the gate that the gated block returns
  is what the sigmoid layer ending its gating module returns. The sigmoid of a real
  number is strictly within the open interval \<open>(0, 1)\<close>; the float32 nearest to it,
  which is what a gate holds, is within the closed interval \<open>[0, 1]\<close>.
\<close>

theorem gate_values:
  "((av = 1 \<or> av = 2 \<or> av = 3) \<and>
    CDBasicBlock_forward T (CDBasicBlock_init T mode cin cout s dr abr av) x = Inr (out, masks) \<longrightarrow>
      (\<exists>z. Sigmoid T z = Inr masks)) \<and>
   0 < sigmoid v \<and> sigmoid v < 1 \<and>
   0 \<le> float32 (sigmoid v) \<and> float32 (sigmoid v) \<le> 1"
  using block_gate_is_sigmoid [of av T mode cin cout s dr abr x out masks]
    sigmoid_open [of v] float32_unit_interval [of "sigmoid v"]
  by blast

theorem gate_values_witness:
  "CDBasicBlock_forward shapes (CDBasicBlock_init shapes True 64 128 2 0 False 1) [4, 64, 16, 16]
     = Inr ([4, 128, 8, 8], [4, 128, 1, 1]) \<and>
   (\<exists>z. Sigmoid shapes z = Inr [4, 128, 1, 1]) \<and>
   0 < sigmoid 0 \<and> sigmoid 0 < 1 \<and> float32 (sigmoid 0) \<le> 1"
proof -
  have "CDBasicBlock_forward shapes (CDBasicBlock_init shapes True 64 128 2 0 False 1)
          [4, 64, 16, 16]
        = Inr ([4, 128, conv_out 16 3 2 1, conv_out 16 3 2 1], [4, 128, 1, 1])"
    by (rule CDBasicBlock_shape) simp_all
  then have r: "CDBasicBlock_forward shapes (CDBasicBlock_init shapes True 64 128 2 0 False 1)
          [4, 64, 16, 16] = Inr ([4, 128, 8, 8], [4, 128, 1, 1])"
    by (simp add: conv_out_def)
  show ?thesis
    using gate_values [of 1 shapes True 64 128 2 0 False "[4, 64, 16, 16]" "[4, 128, 8, 8]"
        "[4, 128, 1, 1]" 0] r
    by simp
qed

text \<open>
  The claim C10 as the specification words it fails for a gate whose value before the
  sigmoid is 100: the sigmoid of 100 is less than 1 by less than \<open>2 ^ - 26\<close>, and the
  float32 nearest to it is 1, which is not strictly below 1.
\<close>

theorem gate_values_counterexample:
  "float32 (sigmoid 100) = 1 \<and> \<not> float32 (sigmoid 100) < 1"
  by (simp add: float32_sigmoid_100)

end
